theory Spec2Isabelle
  imports Complex_Main "HOL-Library.Sublist"
begin

section \<open>Python strings\<close>

text \<open>
  Strings are character lists. \<open>str.lower\<close> is modelled on the letters \<open>A\<close> to \<open>Z\<close>;
  the marker tests of the migration only look for the ASCII letters of \<open>ucr\<close>, \<open>ucd\<close>,
  which no other character lowers to. \<open>sub in s\<close> is the contiguous-substring test
  \<^const>\<open>sublist\<close>.
\<close>

definition lower_char :: "char \<Rightarrow> char" where
  "lower_char c =
     (if (65::nat) \<le> of_char c \<and> of_char c \<le> (90::nat)
      then char_of (of_char c + (32::nat)) else c)"

definition lower :: "string \<Rightarrow> string" where
  "lower s = map lower_char s"

definition str_in :: "string \<Rightarrow> string \<Rightarrow> bool" where
  "str_in sub s = sublist sub s"

text \<open>
  \<open>s.replace(old, new)\<close>: every non-overlapping occurrence of \<open>old\<close>, scanning from the
  left, becomes \<open>new\<close>; an empty \<open>old\<close> matches before every character and at the end.
\<close>

function str_replace :: "string \<Rightarrow> string \<Rightarrow> string \<Rightarrow> string" where
  "str_replace s old new =
     (if old = [] then new @ concat (map (\<lambda>c. c # new) s)
      else if s = [] then []
      else if prefix old s then new @ str_replace (drop (length old) s) old new
      else hd s # str_replace (tl s) old new)"
  by pat_completeness auto
termination
  by (relation "measure (\<lambda>(s, old, new). length s)") auto

declare str_replace.simps [simp del]

section \<open>Dock reconciliation\<close>

text \<open>
  A persisted dock record is the dictionary \<open>{"id", "name", "password"}\<close> of
  \<open>entry.data["docks"]\<close>; a live dock is the device client's dock handle, whose
  attributes \<open>id\<close>, \<open>endpoint\<close> and \<open>_password\<close> are the fields \<open>dock_id\<close>,
  \<open>dock_endpoint\<close> and \<open>dock_password\<close>.
\<close>

record config_dock =
  cd_id :: string
  cd_name :: string
  cd_password :: string

text \<open>The attributes common to the device clients of a remote and of a dock.\<close>

record DeviceClient =
  name :: string
  model_number :: string
  serial_number :: string

record Dock = DeviceClient +
  dock_id :: string
  dock_endpoint :: string
  dock_password :: string

text \<open>The inner loop of the first pass: is \<open>config_dock\<close> among \<open>remote_api.docks\<close>?\<close>

fun found_in_live :: "Dock list \<Rightarrow> config_dock \<Rightarrow> bool" where
  "found_in_live [] c = False"
| "found_in_live (d # ds) c = (if cd_id c = dock_id d then True else found_in_live ds c)"

text \<open>The inner loop of the second pass: is \<open>dock\<close> among \<open>entry.data["docks"]\<close>?\<close>

fun found_in_config :: "config_dock list \<Rightarrow> Dock \<Rightarrow> bool" where
  "found_in_config [] d = False"
| "found_in_config (c # cs) d = (if cd_id c = dock_id d then True else found_in_config cs d)"

text \<open>
  First pass: iterate over a copy of the stored list (first argument of the pair is the
  remaining part of the copy) and \<open>remove\<close> from the stored list every record not found;
  \<open>list.remove\<close> deletes the first equal element, which is \<^const>\<open>remove1\<close>.
\<close>

fun remove_absent ::
  "Dock list \<Rightarrow> config_dock list \<Rightarrow> config_dock list \<times> bool \<Rightarrow> config_dock list \<times> bool" where
  "remove_absent live [] (stored, config_updated) = (stored, config_updated)"
| "remove_absent live (c # cs) (stored, config_updated) =
     (if found_in_live live c then remove_absent live cs (stored, config_updated)
      else remove_absent live cs (remove1 c stored, True))"

definition new_record :: "Dock \<Rightarrow> config_dock" where
  "new_record d = \<lparr>cd_id = dock_id d, cd_name = name d, cd_password = ''''\<rparr>"

text \<open>Second pass: append a record for every live dock not found in the stored list,
  which already holds the records appended so far.\<close>

fun append_new :: "Dock list \<Rightarrow> config_dock list \<times> bool \<Rightarrow> config_dock list \<times> bool" where
  "append_new [] (stored, config_updated) = (stored, config_updated)"
| "append_new (d # ds) (stored, config_updated) =
     (if found_in_config stored d then append_new ds (stored, config_updated)
      else append_new ds (stored @ [new_record d], True))"

definition sync_docks :: "Dock list \<Rightarrow> config_dock list \<Rightarrow> config_dock list \<times> bool" where
  "sync_docks live stored = append_new live (remove_absent live stored (stored, False))"


section \<open>The device client and the host's registries\<close>

text \<open>
  The attributes of the device client (\<open>coordinator.api\<close>, a \<open>Remote\<close>) that the
  integration reads. The client itself is an external library; its attribute values are
  inputs of the model.
\<close>

record Remote = DeviceClient +
  docks :: "Dock list"
  external_entity_configuration_available :: bool
  update_in_progress :: bool
  update_percent :: int
  sw_version :: string
  latest_sw_version :: string
  automatic_updates :: bool
  release_notes :: string

datatype Platform =
  SWITCH | SENSOR | BINARY_SENSOR | UPDATE | BUTTON | REMOTE | NUMBER | SELECT | MEDIA_PLAYER

definition PLATFORMS :: "Platform list" where
  "PLATFORMS = [SWITCH, SENSOR, BINARY_SENSOR, UPDATE, BUTTON, REMOTE, NUMBER, SELECT, MEDIA_PLAYER]"

text \<open>An entry of the host's entity registry. The registry holds one entry per
  \<open>entity_id\<close> and at most one per domain, platform and unique id.\<close>

record RegistryEntry =
  entity_id :: string
  config_entry_id :: string
  domain :: Platform
  platform :: string
  unique_id :: string

text \<open>A device of the device registry; \<open>identifiers\<close> is a set of tuples, held here
  in iteration order, each tuple as the list of its components.\<close>

record DeviceEntry =
  device_id :: string
  identifiers :: "string list list"

text \<open>Python exceptions, as far as the integration tells them apart. \<open>OtherError\<close>
  stands for any other \<open>Exception\<close> subclass, tagged by a message.\<close>

datatype exn =
    AuthenticationError
  | ConnectionError
  | KeyError string
  | IndexError
  | StopIteration
  | AttributeError string
  | ValueError string
  | OverflowError
  | RuntimeError string
  | OtherError string
  | ConfigEntryAuthFailed exn
  | ConfigEntryNotReady exn

section \<open>Migration of legacy unique ids\<close>

text \<open>The callback \<open>async_migrate_entity_entry\<close>; \<open>Some s\<close> is the returned
  dictionary \<open>{"new_unique_id": s}\<close>.\<close>

definition async_migrate_entity_entry :: "Remote \<Rightarrow> RegistryEntry \<Rightarrow> string option" where
  "async_migrate_entity_entry api entry =
     (if domain entry \<noteq> UPDATE
         \<and> domain entry \<noteq> SWITCH
         \<and> \<not> str_in ''ucr'' (lower (unique_id entry))
         \<and> \<not> str_in ''ucd'' (lower (unique_id entry))
      then (let new = model_number api @ ''_'' @ unique_id entry
            in Some (str_replace (unique_id entry) (unique_id entry) new))
      else if domain entry = SWITCH
         \<and> \<not> str_in ''ucr'' (lower (unique_id entry))
         \<and> \<not> str_in ''ucd'' (lower (unique_id entry))
         \<and> \<not> str_in ''uc.main'' (unique_id entry)
      then (let new = model_number api @ ''_'' @ unique_id entry
            in Some (str_replace (unique_id entry) (unique_id entry) new))
      else if domain entry = UPDATE
         \<and> \<not> str_in ''ucr'' (lower (unique_id entry))
         \<and> \<not> str_in ''ucd'' (lower (unique_id entry))
      then (let new = model_number api @ ''_'' @ serial_number api @ ''_update_status''
            in Some (str_replace (unique_id entry) (unique_id entry) new))
      else None)"

text \<open>
  \<open>migrate_entry\<close> is the effect of the migration on one registry entry: the entry
  with the unique id that the callback returns, or the entry as it is when the callback
  returns \<open>None\<close>.
\<close>

definition migrate_entry :: "Remote \<Rightarrow> RegistryEntry \<Rightarrow> RegistryEntry" where
  "migrate_entry api entry =
     (case async_migrate_entity_entry api entry of
        None \<Rightarrow> entry
      | Some new_unique_id \<Rightarrow> entry\<lparr>unique_id := new_unique_id\<rparr>)"

text \<open>
  The host's \<open>EntityRegistry.async_update_entity(entity_id, new_unique_id=...)\<close>:
  \<open>self.entities[entity_id]\<close> raises \<open>KeyError\<close> for an unknown entity; when an entry
  of the same domain and platform already has the new unique id, \<open>ValueError\<close> is
  raised; otherwise the entry gets the new unique id.
\<close>

definition async_update_entity ::
  "RegistryEntry list \<Rightarrow> string \<Rightarrow> string \<Rightarrow> exn + RegistryEntry list" where
  "async_update_entity registry eid new_unique_id =
     (case find (\<lambda>f. entity_id f = eid) registry of
        None \<Rightarrow> Inl (KeyError eid)
      | Some old \<Rightarrow>
          (if \<exists>f \<in> set registry. domain f = domain old \<and> platform f = platform old
                \<and> unique_id f = new_unique_id
           then Inl (ValueError new_unique_id)
           else Inr (map (\<lambda>f. if entity_id f = eid then f\<lparr>unique_id := new_unique_id\<rparr> else f)
                      registry)))"

text \<open>
  The host's \<open>er.async_migrate_entries\<close>: for every registry entry of the config entry,
  in turn, the callback is called and, when it returns a dictionary, the registry is
  updated with it. An exception of the update ends the loop; the entries renamed before
  stay renamed. The second argument is the list of entries still to visit.
\<close>

fun migrate_entries_loop ::
  "Remote \<Rightarrow> RegistryEntry list \<Rightarrow> RegistryEntry list \<Rightarrow> exn option \<times> RegistryEntry list" where
  "migrate_entries_loop api [] registry = (None, registry)"
| "migrate_entries_loop api (entry # rest) registry =
     (case async_migrate_entity_entry api entry of
        None \<Rightarrow> migrate_entries_loop api rest registry
      | Some new_unique_id \<Rightarrow>
          (case async_update_entity registry (entity_id entry) new_unique_id of
             Inl e \<Rightarrow> (Some e, registry)
           | Inr registry' \<Rightarrow> migrate_entries_loop api rest registry'))"

definition async_migrate_entries ::
  "Remote \<Rightarrow> string \<Rightarrow> RegistryEntry list \<Rightarrow> exn option \<times> RegistryEntry list" where
  "async_migrate_entries api eid registry =
     migrate_entries_loop api (filter (\<lambda>f. config_entry_id f = eid) registry) registry"

text \<open>
  \<open>_migrate_device_identifiers\<close>: \<open>next(iter(device.identifiers))\<close> raises
  \<open>StopIteration\<close> on an empty set, \<open>old_identifier[1]\<close> raises \<open>IndexError\<close> on a
  tuple of fewer than two components. The first argument is the constant \<open>DOMAIN\<close> of
  \<open>const.py\<close>.
\<close>

definition migrate_device :: "string \<Rightarrow> Remote \<Rightarrow> DeviceEntry \<Rightarrow> exn + DeviceEntry" where
  "migrate_device DOMAIN api device =
     (case identifiers device of
        [] \<Rightarrow> Inl StopIteration
      | old_identifier # _ \<Rightarrow>
          (if length old_identifier < 2 then Inl IndexError
           else if \<not> str_in ''ucr'' (lower (old_identifier ! 1))
                 \<and> \<not> str_in ''ucd'' (lower (old_identifier ! 1))
           then Inr (device\<lparr>identifiers := [[DOMAIN, model_number api, serial_number api]]\<rparr>)
           else Inr device))"

text \<open>The loop over the devices; the devices updated before an exception stay updated.\<close>

fun migrate_device_identifiers ::
  "string \<Rightarrow> Remote \<Rightarrow> DeviceEntry list \<Rightarrow> exn option \<times> DeviceEntry list" where
  "migrate_device_identifiers DOMAIN api [] = (None, [])"
| "migrate_device_identifiers DOMAIN api (device # devices) =
     (case migrate_device DOMAIN api device of
        Inl e \<Rightarrow> (Some e, device # devices)
      | Inr device' \<Rightarrow>
          (case migrate_device_identifiers DOMAIN api devices of
             (r, devices') \<Rightarrow> (r, device' # devices')))"

text \<open>\<open>_update_config_entry\<close>: fill in \<open>entry.data["docks"]\<close> when the key is missing.\<close>

definition update_config_entry :: "Remote \<Rightarrow> config_dock list option \<Rightarrow> config_dock list option" where
  "update_config_entry api entry_docks =
     (case entry_docks of
        None \<Rightarrow> Some (map new_record (docks api))
      | Some ds \<Rightarrow> Some ds)"


section \<open>The host's state and the outside world\<close>

text \<open>A coordinator wraps the device client it polls.\<close>

datatype Coordinator =
    UnfoldedCircleRemoteCoordinator Remote
  | UnfoldedCircleDockCoordinator Dock

record RuntimeData =
  coordinator :: Coordinator
  remote :: Remote
  dock_coordinators :: "Coordinator list"

text \<open>The config entry: \<open>data_host\<close>, \<open>data_pin\<close>, \<open>data_apiKey\<close> and \<open>data_docks\<close>
  are the keys of \<open>entry.data\<close>, \<open>None\<close> for a missing key.\<close>

record ConfigEntry =
  entry_id :: string
  version :: int
  title :: string
  data_host :: "string option"
  data_pin :: "string option"
  data_apiKey :: "string option"
  data_docks :: "config_dock list option"
  runtime_data :: "RuntimeData option"

record Issue =
  translation_key :: string
  placeholder_name :: string
  data_id :: "string option"
  is_fixable :: bool
  is_persistent :: bool

text \<open>The log statements of the integration, with their arguments.\<close>

datatype LogRecord =
    DockInitError string string exn
  | EmptyDockPassword string string string
  | UnloadError exn
  | RemoveDebug
  | TokenDeletionResult string
  | RemoteUnavailable
  | RemoveError exn

text \<open>
  The part of the host that the integration touches: the config entry, the entity and
  device registry entries of this config entry, the issue registry keyed by domain and
  issue id, the log, and the \<open>hass.data\<close> dictionary.
\<close>

record HomeAssistant =
  config_entry :: ConfigEntry
  entity_registry :: "RegistryEntry list"
  device_registry :: "DeviceEntry list"
  issue_registry :: "string \<times> string \<rightharpoonup> Issue"
  logger :: "LogRecord list"
  data :: "string \<rightharpoonup> (string \<rightharpoonup> (string \<rightharpoonup> Coordinator))"

text \<open>
  The calls into the device client library and into the host framework are not code of
  this integration. Each is an input of the model: \<open>None\<close> (or \<open>Inr\<close>) when the call
  returns, \<open>Some e\<close> (or \<open>Inl e\<close>) when it raises \<open>e\<close>. \<open>api\<close> is the device client as
  it stands after \<open>get_remote_information\<close> and \<open>init\<close>;
  \<open>delete_token_for_external_system\<close> is the outcome of the one call made, with the
  constants \<open>UC_HA_SYSTEM\<close> and \<open>UC_HA_TOKEN_ID\<close>.
\<close>

record World =
  validate_connection :: "exn option"
  get_remote_information :: "exn option"
  api :: Remote
  coordinator_init :: "exn option"
  api_init :: "exn option"
  dock_coordinator_init :: "Dock \<Rightarrow> exn option"
  dock_api_update :: "Dock \<Rightarrow> exn option"
  dock_first_refresh :: "Dock \<Rightarrow> exn option"
  first_refresh :: "exn option"
  get_registered_websocket_url :: "exn + bool"
  async_forward_entry_setups :: "exn option"
  zeroconf_instance :: "exn option"
  init_websocket :: "exn option"
  close_websocket :: "exn option"
  async_delete_issue :: "string \<Rightarrow> exn option"
  async_unload_platforms :: "exn + bool"
  delete_token_for_external_system :: "exn + string"

text \<open>The constants of \<open>const.py\<close>, which is not among the sources, are parameters.\<close>

record Const =
  DOMAIN :: string
  UNFOLDED_CIRCLE_COORDINATOR :: string
  UC_HA_SYSTEM :: string
  UC_HA_TOKEN_ID :: string

section \<open>Setup of a config entry\<close>

text \<open>\<open>Remote(entry.data["host"], entry.data["pin"], entry.data["apiKey"])\<close> followed by
  the two calls inside the \<open>try\<close>.\<close>

definition try_connect :: "World \<Rightarrow> ConfigEntry \<Rightarrow> exn + Remote" where
  "try_connect w entry =
     (case data_host entry of None \<Rightarrow> Inl (KeyError ''host'') | Some host \<Rightarrow>
      case data_pin entry of None \<Rightarrow> Inl (KeyError ''pin'') | Some pin \<Rightarrow>
      case data_apiKey entry of None \<Rightarrow> Inl (KeyError ''apiKey'') | Some apiKey \<Rightarrow>
      case validate_connection w of Some err \<Rightarrow> Inl err | None \<Rightarrow>
      case get_remote_information w of Some err \<Rightarrow> Inl err | None \<Rightarrow>
      Inr (api w))"

text \<open>The three \<open>except\<close> clauses of the first \<open>try\<close>, in their order.\<close>

definition connect :: "World \<Rightarrow> ConfigEntry \<Rightarrow> exn + Remote" where
  "connect w entry =
     (case try_connect w entry of
        Inr remote_api \<Rightarrow> Inr remote_api
      | Inl err \<Rightarrow>
          (if err = AuthenticationError then Inl (ConfigEntryAuthFailed err)
           else if err = ConnectionError then Inl (ConfigEntryNotReady err)
           else Inl (ConfigEntryNotReady err)))"

text \<open>The block \<open>if entry.version == 1\<close>. An exception of a step ends the block; what
  the steps before it changed stays changed.\<close>

definition migrate_v1 :: "Const \<Rightarrow> Remote \<Rightarrow> HomeAssistant \<Rightarrow> exn option \<times> HomeAssistant" where
  "migrate_v1 K remote_api hass =
     (if version (config_entry hass) = 1 then
        (case async_migrate_entries remote_api (entry_id (config_entry hass)) (entity_registry hass) of
           (Some e, registry) \<Rightarrow> (Some e, hass\<lparr>entity_registry := registry\<rparr>)
         | (None, registry) \<Rightarrow>
             (let hass1 = hass\<lparr>entity_registry := registry\<rparr>
              in case migrate_device_identifiers (DOMAIN K) remote_api (device_registry hass1) of
                   (Some e, devices) \<Rightarrow> (Some e, hass1\<lparr>device_registry := devices\<rparr>)
                 | (None, devices) \<Rightarrow>
                     (let hass2 = hass1\<lparr>device_registry := devices\<rparr>;
                          entry2 = (config_entry hass2)
                            \<lparr>data_docks := update_config_entry remote_api (data_docks (config_entry hass2))\<rparr>;
                          entry3 = entry2\<lparr>version := 2\<rparr>
                      in (None, hass2\<lparr>config_entry := entry3\<rparr>))))
      else (None, hass))"

text \<open>
  The synchronisation of \<open>entry.data["docks"]\<close> with \<open>remote_api.docks\<close>; the lookup
  raises \<open>KeyError\<close> when the key is missing. The list is changed in place; the final
  \<open>async_update_entry\<close> under \<open>config_updated\<close> only hands the same data to the host.
\<close>

definition synchronize_docks :: "Remote \<Rightarrow> HomeAssistant \<Rightarrow> exn option \<times> HomeAssistant" where
  "synchronize_docks remote_api hass =
     (case data_docks (config_entry hass) of
        None \<Rightarrow> (Some (KeyError ''docks''), hass)
      | Some stored \<Rightarrow>
          (None, hass\<lparr>config_entry := (config_entry hass)
                   \<lparr>data_docks := Some (fst (sync_docks (docks remote_api) stored))\<rparr>\<rparr>))"

text \<open>The inner loop that copies the stored password onto the dock handle.\<close>

fun assign_password :: "config_dock list \<Rightarrow> Dock \<Rightarrow> Dock" where
  "assign_password [] dock = dock"
| "assign_password (c # cs) dock =
     (if cd_id c = dock_id dock then dock\<lparr>dock_password := cd_password c\<rparr>
      else assign_password cs dock)"

text \<open>Modelled from the spec: \<open>dock.has_password\<close> is a property of the device client
  library, which is not among the sources; following the specification's "non-empty
  password", the dock has a password when the stored one is not the empty string.\<close>

definition has_password :: "Dock \<Rightarrow> bool" where
  "has_password dock \<longleftrightarrow> dock_password dock \<noteq> ''''"

definition dock_password_issue :: "Dock \<Rightarrow> Issue" where
  "dock_password_issue dock =
     \<lparr>translation_key = ''dock_password'', placeholder_name = name dock,
      data_id = Some (dock_id dock), is_fixable = True, is_persistent = False\<rparr>"

text \<open>
  The loop over \<open>remote_api.docks\<close> that creates the dock coordinators. The coordinator
  is constructed before the \<open>try\<close>; \<open>api.update\<close> and the first refresh are inside.
\<close>

fun setup_docks ::
  "Const \<Rightarrow> World \<Rightarrow> Dock list \<Rightarrow> Coordinator list \<times> HomeAssistant \<Rightarrow>
     (exn + Coordinator list) \<times> HomeAssistant" where
  "setup_docks K w [] (dcs, hass) = (Inr dcs, hass)"
| "setup_docks K w (dock0 # rest) (dcs, hass) =
     (case data_docks (config_entry hass) of
        None \<Rightarrow> (Inl (KeyError ''docks''), hass)
      | Some stored \<Rightarrow>
          (let dock = assign_password stored dock0 in
           if has_password dock then
             (case dock_coordinator_init w dock of
                Some e \<Rightarrow> (Inl e, hass)
              | None \<Rightarrow>
                  (case dock_api_update w dock of
                     Some ex \<Rightarrow> setup_docks K w rest (dcs,
                       hass\<lparr>logger := logger hass @ [DockInitError (name dock) (dock_endpoint dock) ex]\<rparr>)
                   | None \<Rightarrow>
                       (case dock_first_refresh w dock of
                          Some ex \<Rightarrow> setup_docks K w rest (dcs,
                            hass\<lparr>logger := logger hass @ [DockInitError (name dock) (dock_endpoint dock) ex]\<rparr>)
                        | None \<Rightarrow> setup_docks K w rest
                            (dcs @ [UnfoldedCircleDockCoordinator dock], hass))))
           else setup_docks K w rest (dcs,
                  hass\<lparr>logger := logger hass
                          @ [EmptyDockPassword (name dock) (dock_id dock) (title (config_entry hass))],
                       issue_registry := (issue_registry hass)
                          ((DOMAIN K, ''dock_password_'' @ dock_id dock) \<mapsto> dock_password_issue dock)\<rparr>)))"

definition websocket_connection_issue :: "Remote \<Rightarrow> Issue" where
  "websocket_connection_issue remote_api =
     \<lparr>translation_key = ''websocket_connection'', placeholder_name = name remote_api,
      data_id = None, is_fixable = True, is_persistent = False\<rparr>"

text \<open>Everything of \<open>async_setup_entry\<close> after the dock loop; \<open>remote_api\<close> is the
  device client as the dock loop left it. The registration of the update listener
  changes nothing that is modelled here.\<close>

definition finish_setup ::
  "Const \<Rightarrow> World \<Rightarrow> Remote \<Rightarrow> Coordinator list \<Rightarrow> HomeAssistant \<Rightarrow> (exn + bool) \<times> HomeAssistant" where
  "finish_setup K w remote_api dcs hass =
     (let hass1 = hass\<lparr>config_entry := (config_entry hass)\<lparr>runtime_data :=
            Some \<lparr>coordinator = UnfoldedCircleRemoteCoordinator remote_api, remote = remote_api,
                  dock_coordinators = dcs\<rparr>\<rparr>\<rparr>
      in case first_refresh w of Some e \<Rightarrow> (Inl e, hass1) | None \<Rightarrow>
         (case (if external_entity_configuration_available remote_api
                then (case get_registered_websocket_url w of
                        Inl e \<Rightarrow> Inl e
                      | Inr registered \<Rightarrow>
                          if \<not> registered
                          then Inr (hass1\<lparr>issue_registry := (issue_registry hass1)
                                 ((DOMAIN K, ''websocket_connection'') \<mapsto>
                                    websocket_connection_issue remote_api)\<rparr>)
                          else Inr hass1)
                else Inr hass1) of
            Inl e \<Rightarrow> (Inl e, hass1)
          | Inr hass2 \<Rightarrow>
              (case async_forward_entry_setups w of Some e \<Rightarrow> (Inl e, hass2) | None \<Rightarrow>
               case zeroconf_instance w of Some e \<Rightarrow> (Inl e, hass2) | None \<Rightarrow>
               case init_websocket w of Some e \<Rightarrow> (Inl e, hass2) | None \<Rightarrow>
               (Inr True, hass2))))"

text \<open>
  The dock loop writes \<open>dock._password\<close> on the dock objects of \<open>remote_api.docks\<close>
  themselves: once the loop has visited every dock, the docks of the device client carry
  the stored passwords.
\<close>

definition with_passwords :: "Remote \<Rightarrow> HomeAssistant \<Rightarrow> Remote" where
  "with_passwords remote_api hass =
     (case data_docks (config_entry hass) of
        None \<Rightarrow> remote_api
      | Some stored \<Rightarrow> remote_api\<lparr>docks := map (assign_password stored) (docks remote_api)\<rparr>)"

text \<open>The statements of \<open>async_setup_entry\<close>, in their order.\<close>

definition setup_statements :: "Const \<Rightarrow> World \<Rightarrow> HomeAssistant \<Rightarrow> (exn + bool) \<times> HomeAssistant" where
  "setup_statements K w hass =
     (case connect w (config_entry hass) of
        Inl err \<Rightarrow> (Inl err, hass)
      | Inr remote_api \<Rightarrow>
          (case coordinator_init w of Some e \<Rightarrow> (Inl e, hass) | None \<Rightarrow>
           case api_init w of Some e \<Rightarrow> (Inl e, hass) | None \<Rightarrow>
           case migrate_v1 K remote_api hass of
             (Some e, hass1) \<Rightarrow> (Inl e, hass1)
           | (None, hass1) \<Rightarrow>
               (case synchronize_docks remote_api hass1 of
                  (Some e, hass2) \<Rightarrow> (Inl e, hass2)
                | (None, hass2) \<Rightarrow>
                    (case setup_docks K w (docks remote_api) ([], hass2) of
                       (Inl e, hass3) \<Rightarrow> (Inl e, hass3)
                     | (Inr dcs, hass3) \<Rightarrow>
                         finish_setup K w (with_passwords remote_api hass3) dcs hass3))))"

text \<open>
  \<open>async_setup_entry\<close> is a coroutine: a \<open>StopIteration\<close> that would leave its body,
  as the one of \<open>next(iter(device.identifiers))\<close> does, is replaced by Python with a
  \<open>RuntimeError\<close>.
\<close>

definition coroutine_raises :: "exn \<Rightarrow> exn" where
  "coroutine_raises e =
     (if e = StopIteration then RuntimeError ''coroutine raised StopIteration'' else e)"

definition async_setup_entry :: "Const \<Rightarrow> World \<Rightarrow> HomeAssistant \<Rightarrow> (exn + bool) \<times> HomeAssistant" where
  "async_setup_entry K w hass =
     (case setup_statements K w hass of
        (Inl e, hass') \<Rightarrow> (Inl (coroutine_raises e), hass')
      | (Inr ok, hass') \<Rightarrow> (Inr ok, hass'))"


section \<open>Unload and removal of a config entry\<close>

text \<open>The loop over \<open>coordinator.api.docks\<close> that deletes the dock password issues.\<close>

fun delete_dock_issues ::
  "Const \<Rightarrow> World \<Rightarrow> Dock list \<Rightarrow> HomeAssistant \<Rightarrow> exn option \<times> HomeAssistant" where
  "delete_dock_issues K w [] hass = (None, hass)"
| "delete_dock_issues K w (dock # rest) hass =
     (case async_delete_issue w (''dock_password_'' @ dock_id dock) of
        Some ex \<Rightarrow> (Some ex, hass)
      | None \<Rightarrow> delete_dock_issues K w rest
          (hass\<lparr>issue_registry := (issue_registry hass)
                   ((DOMAIN K, ''dock_password_'' @ dock_id dock) := None)\<rparr>))"

text \<open>The body of the \<open>try\<close> of \<open>async_unload_entry\<close>. Reading \<open>runtime_data\<close> of an
  entry that was never set up, or \<open>docks\<close> of a dock client, is an \<open>AttributeError\<close>.\<close>

definition unload_try :: "Const \<Rightarrow> World \<Rightarrow> HomeAssistant \<Rightarrow> exn option \<times> HomeAssistant" where
  "unload_try K w hass =
     (case runtime_data (config_entry hass) of
        None \<Rightarrow> (Some (AttributeError ''runtime_data''), hass)
      | Some rd \<Rightarrow>
          (case close_websocket w of
             Some ex \<Rightarrow> (Some ex, hass)
           | None \<Rightarrow>
               (case coordinator rd of
                  UnfoldedCircleRemoteCoordinator remote_api \<Rightarrow>
                    delete_dock_issues K w (docks remote_api) hass
                | UnfoldedCircleDockCoordinator dock \<Rightarrow> (Some (AttributeError ''docks''), hass))))"

definition async_unload_entry :: "Const \<Rightarrow> World \<Rightarrow> HomeAssistant \<Rightarrow> (exn + bool) \<times> HomeAssistant" where
  "async_unload_entry K w hass =
     (let hass1 = (case unload_try K w hass of
                     (Some ex, h) \<Rightarrow> h\<lparr>logger := logger h @ [UnloadError ex]\<rparr>
                   | (None, h) \<Rightarrow> h)
      in case async_unload_platforms w of
           Inl e \<Rightarrow> (Inl e, hass1)
         | Inr unload_ok \<Rightarrow> (Inr unload_ok, hass1))"

text \<open>The body of the outer \<open>try\<close> of \<open>async_remove_entry\<close>, with the inner
  \<open>try\<close> that handles \<open>ConnectionError\<close>.\<close>

definition remove_try :: "Const \<Rightarrow> World \<Rightarrow> HomeAssistant \<Rightarrow> exn option \<times> HomeAssistant" where
  "remove_try K w hass =
     (let hass1 = hass\<lparr>logger := logger hass @ [RemoveDebug]\<rparr>;
          entry = config_entry hass
      in case data_host entry of None \<Rightarrow> (Some (KeyError ''host''), hass1) | Some host \<Rightarrow>
         case data_pin entry of None \<Rightarrow> (Some (KeyError ''pin''), hass1) | Some pin \<Rightarrow>
         case data_apiKey entry of None \<Rightarrow> (Some (KeyError ''apiKey''), hass1) | Some apiKey \<Rightarrow>
         (case delete_token_for_external_system w of
            Inr results \<Rightarrow> (None, hass1\<lparr>logger := logger hass1 @ [TokenDeletionResult results]\<rparr>)
          | Inl e \<Rightarrow>
              (if e = ConnectionError
               then (None, hass1\<lparr>logger := logger hass1 @ [RemoteUnavailable]\<rparr>)
               else (Some e, hass1))))"

definition async_remove_entry :: "Const \<Rightarrow> World \<Rightarrow> HomeAssistant \<Rightarrow> (exn + unit) \<times> HomeAssistant" where
  "async_remove_entry K w hass =
     (case remove_try K w hass of
        (Some ex, h) \<Rightarrow> (Inr (), h\<lparr>logger := logger h @ [RemoveError ex]\<rparr>)
      | (None, h) \<Rightarrow> (Inr (), h))"


section \<open>Number entities\<close>

text \<open>The control functions of \<open>number.py\<close>, by name.\<close>

datatype ControlFn =
    update_remote_display_settings
  | update_remote_button_settings
  | update_remote_sound_settings
  | update_remote_display_timeout_settings
  | update_remote_wakeup_sensitivity_settings
  | update_remote_sleep_timeout_settings
  | update_dock_led_brightness
  | update_dock_ethernet_led_brightness

record UnfoldedCircleNumberEntityDescription =
  key :: string
  description_name :: string
  description_unique_id :: string
  icon :: string
  control_fn :: ControlFn
  native_min_value :: int
  native_max_value :: int
  min_value :: "int option"
  max_value :: "int option"
  entity_registry_enabled_default :: bool
  entity_registry_visible_default :: bool

definition number_description ::
  "string \<Rightarrow> string \<Rightarrow> string \<Rightarrow> string \<Rightarrow> ControlFn \<Rightarrow> int \<Rightarrow> int \<Rightarrow>
     UnfoldedCircleNumberEntityDescription" where
  "number_description k n u i f lo hi =
     \<lparr>key = k, description_name = n, description_unique_id = u, icon = i, control_fn = f,
      native_min_value = lo, native_max_value = hi, min_value = None, max_value = None,
      entity_registry_enabled_default = True, entity_registry_visible_default = True\<rparr>"

definition UNFOLDED_CIRCLE_NUMBER :: "UnfoldedCircleNumberEntityDescription list" where
  "UNFOLDED_CIRCLE_NUMBER =
     [number_description ''display_brightness'' ''Display Brightness'' ''display_brightness''
        ''mdi:brightness-5'' update_remote_display_settings 0 100,
      number_description ''button_backlight_brightness'' ''Button Backlight Brightness''
        ''button_backlight_brightness'' ''mdi:keyboard-settings-outline''
        update_remote_button_settings 0 100,
      number_description ''sound_effects_volume'' ''Sound Effects Volume'' ''sound_effects_volume''
        ''mdi:volume-medium'' update_remote_sound_settings 0 100,
      number_description ''display_timeout'' ''Display Timeout'' ''display_timeout''
        ''mdi:vibrate'' update_remote_display_timeout_settings 0 60,
      number_description ''wakeup_sensitivity'' ''Wake Sensitivity'' ''wakeup_sensitivity''
        ''mdi:sleep-off'' update_remote_wakeup_sensitivity_settings 0 3,
      number_description ''sleep_timeout'' ''Sleep Timeout'' ''sleep_timeout''
        ''mdi:power-sleep'' update_remote_sleep_timeout_settings 0 1800]"

definition UNFOLDED_CIRCLE_DOCK_NUMBER :: "UnfoldedCircleNumberEntityDescription list" where
  "UNFOLDED_CIRCLE_DOCK_NUMBER =
     [number_description ''led_brightness'' ''LED Brightness'' ''display_brightness''
        ''mdi:brightness-5'' update_dock_led_brightness 0 100,
      (number_description ''ethernet_led_brightness'' ''Ethernet LED Brightness''
        ''button_backlight_brightness'' ''mdi:lan'' update_dock_ethernet_led_brightness 0 100)
        \<lparr>entity_registry_enabled_default := False, entity_registry_visible_default := False\<rparr>]"

text \<open>\<open>coordinator.api.model_number\<close> and \<open>coordinator.api.serial_number\<close>, for either
  kind of coordinator.\<close>

definition api_model_number :: "Coordinator \<Rightarrow> string" where
  "api_model_number c =
     (case c of UnfoldedCircleRemoteCoordinator a \<Rightarrow> model_number a
              | UnfoldedCircleDockCoordinator d \<Rightarrow> model_number d)"

definition api_serial_number :: "Coordinator \<Rightarrow> string" where
  "api_serial_number c =
     (case c of UnfoldedCircleRemoteCoordinator a \<Rightarrow> serial_number a
              | UnfoldedCircleDockCoordinator d \<Rightarrow> serial_number d)"

text \<open>What the entity classes of this integration have in common.\<close>

record UnfoldedCircleEntity =
  entity_coordinator :: Coordinator
  attr_unique_id :: string
  attr_name :: string

record NumberEntity = UnfoldedCircleEntity +
  entity_description :: UnfoldedCircleNumberEntityDescription
  attr_has_entity_name :: bool
  attr_native_value :: "int option"
  attr_icon :: string
  attr_min_value :: "int option"
  attr_max_value :: "int option"

text \<open>\<open>UCRemoteNumber.__init__\<close> and \<open>UCDockNumber.__init__\<close>; the second argument is
  \<open>coordinator.data\<close>, the dictionary kept by the coordinator.\<close>

definition UCRemoteNumber ::
  "Coordinator \<Rightarrow> (string \<rightharpoonup> int) \<Rightarrow> UnfoldedCircleNumberEntityDescription \<Rightarrow> NumberEntity" where
  "UCRemoteNumber c coordinator_data description =
     \<lparr>entity_coordinator = c,
      attr_unique_id = api_model_number c @ ''_'' @ api_serial_number c @ ''_''
                         @ description_unique_id description,
      attr_name = description_name description,
      entity_description = description,
      attr_has_entity_name = True,
      attr_native_value = coordinator_data (''_'' @ key description),
      attr_icon = icon description,
      attr_min_value = min_value description,
      attr_max_value = max_value description\<rparr>"

definition UCDockNumber ::
  "Coordinator \<Rightarrow> (string \<rightharpoonup> int) \<Rightarrow> UnfoldedCircleNumberEntityDescription \<Rightarrow> NumberEntity" where
  "UCDockNumber c coordinator_data description =
     \<lparr>entity_coordinator = c,
      attr_unique_id = api_model_number c @ ''_'' @ api_serial_number c @ ''_''
                         @ description_unique_id description,
      attr_name = description_name description,
      entity_description = description,
      attr_has_entity_name = True,
      attr_native_value = coordinator_data (''_'' @ key description),
      attr_icon = icon description,
      attr_min_value = min_value description,
      attr_max_value = max_value description\<rparr>"

text \<open>\<open>str(value)\<close> of an integer: its decimal digits, with a minus sign when negative.\<close>

fun str_nat :: "nat \<Rightarrow> string" where
  "str_nat n = (if n < 10 then [char_of (48 + n)] else str_nat (n div 10) @ [char_of (48 + n mod 10)])"

declare str_nat.simps [simp del]

definition str_int :: "int \<Rightarrow> string" where
  "str_int i = (if i < 0 then ''-'' @ str_nat (nat (- i)) else str_nat (nat i))"

text \<open>A Python float: a finite value, which is a real number, or one of the three
  special values.\<close>

datatype PyFloat = Finite real | PosInf | NegInf | NaN

text \<open>\<open>int(value)\<close>: truncation towards zero of a finite float; \<open>ValueError\<close> for
  \<open>nan\<close> and \<open>OverflowError\<close> for the infinities.\<close>

fun py_int :: "PyFloat \<Rightarrow> exn + int" where
  "py_int (Finite v) = Inr (if 0 \<le> v then \<lfloor>v\<rfloor> else \<lceil>v\<rceil>)"
| "py_int NaN = Inl (ValueError ''cannot convert float NaN to integer'')"
| "py_int PosInf = Inl OverflowError"
| "py_int NegInf = Inl OverflowError"

text \<open>A call of a method of the device client: the method, and its keyword argument
  with the value passed.\<close>

datatype ApiCall =
    patch_remote_display_settings string int
  | patch_remote_button_settings string int
  | patch_remote_sound_settings string int
  | patch_remote_power_saving_settings string int
  | send_command string string

text \<open>The body of each control function: the one call it awaits on \<open>coordinator.api\<close>.\<close>

fun control_fn_body :: "ControlFn \<Rightarrow> int \<Rightarrow> ApiCall" where
  "control_fn_body update_remote_display_settings v = patch_remote_display_settings ''brightness'' v"
| "control_fn_body update_remote_button_settings v = patch_remote_button_settings ''brightness'' v"
| "control_fn_body update_remote_sound_settings v = patch_remote_sound_settings ''sound_effects_volume'' v"
| "control_fn_body update_remote_display_timeout_settings v =
     patch_remote_power_saving_settings ''display_timeout'' v"
| "control_fn_body update_remote_wakeup_sensitivity_settings v =
     patch_remote_power_saving_settings ''wakeup_sensitivity'' v"
| "control_fn_body update_remote_sleep_timeout_settings v =
     patch_remote_power_saving_settings ''sleep_timeout'' v"
| "control_fn_body update_dock_led_brightness v = send_command ''SET_LED_BRIGHTNESS'' (str_int v)"
| "control_fn_body update_dock_ethernet_led_brightness v =
     send_command ''SET_ETHERNET_LED_BRIGHTNESS'' (str_int v)"

text \<open>
  What a set operation does to the outside, in order: the call of a control function
  with its coordinator and integer argument, the device client call made by its body,
  and a refresh request to a coordinator.
\<close>

datatype Event =
    ControlFnCalled ControlFn Coordinator int
  | ApiCalled Coordinator ApiCall
  | RefreshRequested Coordinator

text \<open>The outcome of the awaited calls: whether the device client call and the
  refresh request return or raise.\<close>

record NumberWorld =
  api_call :: "Coordinator \<times> ApiCall \<Rightarrow> exn option"
  async_request_refresh :: "Coordinator \<Rightarrow> exn option"

text \<open>
  \<open>async_set_native_value\<close>, the same code in \<open>UCRemoteNumber\<close> and \<open>UCDockNumber\<close>. The
  result is the exception raised, if any, and the events in order; each \<open>await\<close>
  finishes before the next statement runs, and an exception ends the operation.
\<close>

definition async_set_native_value ::
  "NumberWorld \<Rightarrow> NumberEntity \<Rightarrow> PyFloat \<Rightarrow> exn option \<times> Event list" where
  "async_set_native_value w self v =
     (case py_int v of
        Inl e \<Rightarrow> (Some e, [])
      | Inr value_int \<Rightarrow>
          (let f = control_fn (entity_description self);
               c = entity_coordinator self;
               called = [ControlFnCalled f c value_int, ApiCalled c (control_fn_body f value_int)]
           in case api_call w (c, control_fn_body f value_int) of
                Some e \<Rightarrow> (Some e, called)
              | None \<Rightarrow>
                  (case async_request_refresh w c of
                     Some e \<Rightarrow> (Some e, called @ [RefreshRequested c])
                   | None \<Rightarrow> (None, called @ [RefreshRequested c]))))"

section \<open>The firmware update entity\<close>

text \<open>The value of \<open>_attr_in_progress\<close>: a Boolean, a string or the percentage.\<close>

datatype InProgress = PyBool bool | PyStr string | PyInt int

record Update = UnfoldedCircleEntity +
  attr_in_progress :: InProgress
  attr_installed_version :: string
  attr_latest_version :: string
  attr_auto_update :: bool
  attr_release_notes :: string
  attr_title :: string
  state_writes :: nat

text \<open>\<open>Update.__init__\<close>; the host's \<open>UpdateEntity\<close> starts with
  \<open>_attr_in_progress = False\<close>.\<close>

definition Update_init :: "Remote \<Rightarrow> Update" where
  "Update_init a =
     \<lparr>entity_coordinator = UnfoldedCircleRemoteCoordinator a,
      attr_unique_id = name a @ ''_update_status'',
      attr_name = name a @ '' Firmware'',
      attr_in_progress = PyBool False,
      attr_installed_version = sw_version a,
      attr_latest_version = latest_sw_version a,
      attr_auto_update = automatic_updates a,
      attr_release_notes = release_notes a,
      attr_title = name a @ '' Firmware'',
      state_writes = 0\<rparr>"

text \<open>\<open>Update._handle_coordinator_update\<close>; the first argument is
  \<open>self.coordinator.api\<close> at the time of the call.\<close>

definition handle_coordinator_update :: "Remote \<Rightarrow> Update \<Rightarrow> Update" where
  "handle_coordinator_update a self =
     (let self1 =
        (if update_in_progress a = True then
           (if update_percent a = 0 then self\<lparr>attr_in_progress := PyStr ''0''\<rparr>
            else self\<lparr>attr_in_progress := PyInt (update_percent a)\<rparr>)
         else self\<lparr>attr_in_progress := PyBool False,
                   attr_installed_version := sw_version a,
                   attr_latest_version := latest_sw_version a\<rparr>)
      in self1\<lparr>state_writes := state_writes self1 + 1\<rparr>)"

section \<open>Platform setup\<close>

text \<open>\<open>async_setup_entry\<close> of \<open>update.py\<close>: the coordinator is looked up in
  \<open>hass.data\<close>; each missing key is a \<open>KeyError\<close>. A dock client has none of the
  firmware attributes that \<open>Update.__init__\<close> reads.\<close>

definition update_async_setup_entry :: "Const \<Rightarrow> HomeAssistant \<Rightarrow> exn + Update list" where
  "update_async_setup_entry K hass =
     (case data hass (DOMAIN K) of
        None \<Rightarrow> Inl (KeyError (DOMAIN K))
      | Some by_entry \<Rightarrow>
          (case by_entry (entry_id (config_entry hass)) of
             None \<Rightarrow> Inl (KeyError (entry_id (config_entry hass)))
           | Some by_key \<Rightarrow>
               (case by_key (UNFOLDED_CIRCLE_COORDINATOR K) of
                  None \<Rightarrow> Inl (KeyError (UNFOLDED_CIRCLE_COORDINATOR K))
                | Some c \<Rightarrow>
                    (case c of
                       UnfoldedCircleRemoteCoordinator a \<Rightarrow> Inr [Update_init a]
                     | UnfoldedCircleDockCoordinator d \<Rightarrow> Inl (AttributeError ''automatic_updates'')))))"

text \<open>\<open>async_setup_entry\<close> of \<open>number.py\<close>: the coordinators come from
  \<open>config_entry.runtime_data\<close>.\<close>

definition number_async_setup_entry ::
  "(Coordinator \<Rightarrow> string \<rightharpoonup> int) \<Rightarrow> HomeAssistant \<Rightarrow> exn + NumberEntity list" where
  "number_async_setup_entry coordinator_data hass =
     (case runtime_data (config_entry hass) of
        None \<Rightarrow> Inl (AttributeError ''runtime_data'')
      | Some rd \<Rightarrow>
          Inr (map (UCRemoteNumber (coordinator rd) (coordinator_data (coordinator rd)))
                   UNFOLDED_CIRCLE_NUMBER
               @ concat (map (\<lambda>dock_coordinator.
                    map (UCDockNumber dock_coordinator (coordinator_data dock_coordinator))
                        UNFOLDED_CIRCLE_DOCK_NUMBER)
                  (dock_coordinators rd))))"


section \<open>Properties of the dock reconciliation\<close>

lemma found_in_live_iff: "found_in_live live c \<longleftrightarrow> cd_id c \<in> dock_id ` set live"
  by (induction live) auto

lemma found_in_config_iff: "found_in_config stored d \<longleftrightarrow> dock_id d \<in> cd_id ` set stored"
  by (induction stored) auto

lemma remove1_append_absent: "c \<notin> set kept \<Longrightarrow> remove1 c (kept @ c # cs) = kept @ cs"
  by (induction kept) auto

lemma remove_absent_fst:
  "\<forall>k \<in> set kept. found_in_live live k \<Longrightarrow>
   fst (remove_absent live cs (kept @ cs, u)) = kept @ filter (found_in_live live) cs"
proof (induction cs arbitrary: kept u)
  case Nil
  then show ?case by simp
next
  case (Cons c cs)
  show ?case
  proof (cases "found_in_live live c")
    case True
    with Cons.prems have "\<forall>k \<in> set (kept @ [c]). found_in_live live k" by simp
    from Cons.IH [OF this, of u] True show ?thesis by simp
  next
    case False
    with Cons.prems have "c \<notin> set kept" by auto
    then have "remove1 c (kept @ c # cs) = kept @ cs" by (rule remove1_append_absent)
    with Cons.IH [OF Cons.prems, of True] False show ?thesis by simp
  qed
qed

lemma remove_absent_snd:
  "snd (remove_absent live cs (stored, u)) \<longleftrightarrow> u \<or> (\<exists>c \<in> set cs. \<not> found_in_live live c)"
  by (induction cs arbitrary: stored u) auto

lemma append_new_unchanged:
  "\<forall>d \<in> set live. found_in_config stored d \<Longrightarrow> append_new live (stored, u) = (stored, u)"
  by (induction live) auto

lemma append_new_char:
  "\<exists>N. fst (append_new live (stored, u)) = stored @ N
     \<and> distinct (map cd_id N)
     \<and> cd_id ` set N = dock_id ` set live - cd_id ` set stored
     \<and> (\<forall>n \<in> set N. \<exists>d. find (\<lambda>d. dock_id d = cd_id n) live = Some d \<and> n = new_record d)"
proof (induction live arbitrary: stored u)
  case Nil
  then show ?case by simp
next
  case (Cons d live)
  show ?case
  proof (cases "found_in_config stored d")
    case True
    then have in_docks: "dock_id d \<in> cd_id ` set stored" by (simp add: found_in_config_iff)
    from Cons.IH [of stored u] obtain N where N:
      "fst (append_new live (stored, u)) = stored @ N" "distinct (map cd_id N)"
      "cd_id ` set N = dock_id ` set live - cd_id ` set stored"
      "\<forall>n \<in> set N. \<exists>d. find (\<lambda>d. dock_id d = cd_id n) live = Some d \<and> n = new_record d"
      by blast
    have "\<forall>n \<in> set N. cd_id n \<noteq> dock_id d"
    proof
      fix n assume "n \<in> set N"
      then have "cd_id n \<in> cd_id ` set N" by (rule imageI)
      with N(3) have "cd_id n \<notin> cd_id ` set stored" by simp
      with in_docks show "cd_id n \<noteq> dock_id d" by metis
    qed
    with N(4) have "\<forall>n \<in> set N. \<exists>e. find (\<lambda>d. dock_id d = cd_id n) (d # live) = Some e \<and> n = new_record e"
      by auto
    moreover have "cd_id ` set N = dock_id ` set (d # live) - cd_id ` set stored"
      using N(3) in_docks by auto
    ultimately show ?thesis using True N(1,2) by auto
  next
    case False
    then have not_in: "dock_id d \<notin> cd_id ` set stored" by (simp add: found_in_config_iff)
    from Cons.IH [of "stored @ [new_record d]" True] obtain N where N:
      "fst (append_new live (stored @ [new_record d], True)) = (stored @ [new_record d]) @ N"
      "distinct (map cd_id N)"
      "cd_id ` set N = dock_id ` set live - cd_id ` set (stored @ [new_record d])"
      "\<forall>n \<in> set N. \<exists>d. find (\<lambda>d. dock_id d = cd_id n) live = Some d \<and> n = new_record d"
      by blast
    have id_new: "cd_id (new_record d) = dock_id d" by (simp add: new_record_def)
    have ne: "\<forall>n \<in> set N. cd_id n \<noteq> dock_id d"
    proof
      fix n assume "n \<in> set N"
      then have "cd_id n \<in> cd_id ` set N" by (rule imageI)
      with N(3) have "cd_id n \<notin> cd_id ` set (stored @ [new_record d])" by simp
      with id_new show "cd_id n \<noteq> dock_id d" by auto
    qed
    let ?M = "new_record d # N"
    have 1: "fst (append_new (d # live) (stored, u)) = stored @ ?M"
      using False N(1) by simp
    have 2: "distinct (map cd_id ?M)"
      using N(2) ne id_new by auto
    have 3: "cd_id ` set ?M = dock_id ` set (d # live) - cd_id ` set stored"
      using N(3) id_new not_in by auto
    have 4: "\<forall>n \<in> set ?M. \<exists>e. find (\<lambda>d. dock_id d = cd_id n) (d # live) = Some e \<and> n = new_record e"
      using N(4) ne id_new by auto
    from 1 2 3 4 show ?thesis by blast
  qed
qed

lemma append_new_distinct:
  "distinct (map dock_id live) \<Longrightarrow>
   fst (append_new live (stored, u)) =
     stored @ map new_record (filter (\<lambda>d. dock_id d \<notin> cd_id ` set stored) live)"
proof (induction live arbitrary: stored u)
  case Nil
  then show ?case by simp
next
  case (Cons d live)
  from Cons.prems have dist: "distinct (map dock_id live)"
    and notin: "dock_id d \<notin> dock_id ` set live" by simp_all
  from notin have fresh: "\<forall>e \<in> set live. dock_id e \<noteq> dock_id d"
    by (metis imageI)
  show ?case
  proof (cases "found_in_config stored d")
    case True
    with Cons.IH [OF dist, of stored u] show ?thesis
      by (simp add: found_in_config_iff)
  next
    case False
    have "filter (\<lambda>e. dock_id e \<notin> cd_id ` set (stored @ [new_record d])) live
        = filter (\<lambda>e. dock_id e \<notin> cd_id ` set stored) live"
      using fresh by (intro filter_cong) (auto simp: new_record_def)
    with Cons.IH [OF dist, of "stored @ [new_record d]" True] False show ?thesis
      by (simp add: found_in_config_iff)
  qed
qed

lemma remove_absent_eq:
  "remove_absent live stored (stored, False) =
     (filter (\<lambda>c. cd_id c \<in> dock_id ` set live) stored,
      \<exists>c \<in> set stored. cd_id c \<notin> dock_id ` set live)"
proof -
  have "fst (remove_absent live stored ([] @ stored, False)) = [] @ filter (found_in_live live) stored"
    by (rule remove_absent_fst) simp
  moreover have "filter (found_in_live live) stored =
      filter (\<lambda>c. cd_id c \<in> dock_id ` set live) stored"
    by (intro filter_cong) (simp_all add: found_in_live_iff)
  ultimately have "fst (remove_absent live stored (stored, False)) =
      filter (\<lambda>c. cd_id c \<in> dock_id ` set live) stored"
    by simp
  moreover have "snd (remove_absent live stored (stored, False)) \<longleftrightarrow>
      (\<exists>c \<in> set stored. cd_id c \<notin> dock_id ` set live)"
    by (simp add: remove_absent_snd found_in_live_iff)
  ultimately show ?thesis by (simp only: prod_eq_iff fst_conv snd_conv simp_thms)
qed

lemma sync_docks_fixpoint:
  assumes "cd_id ` set stored = dock_id ` set live"
  shows "sync_docks live stored = (stored, False)"
proof -
  have "filter (\<lambda>c. cd_id c \<in> dock_id ` set live) stored = stored"
    using assms by (auto simp: filter_id_conv)
  moreover have "\<not> (\<exists>c \<in> set stored. cd_id c \<notin> dock_id ` set live)"
    using assms by auto
  ultimately have "remove_absent live stored (stored, False) = (stored, False)"
    by (simp add: remove_absent_eq)
  moreover have "\<forall>d \<in> set live. found_in_config stored d"
    using assms by (auto simp: found_in_config_iff)
  ultimately show ?thesis
    by (simp add: sync_docks_def append_new_unchanged)
qed

lemma filter_distinct_key:
  "distinct (map f xs) \<Longrightarrow> x \<in> set xs \<Longrightarrow> filter (\<lambda>c. f c = f x) xs = [x]"
proof (induction xs)
  case Nil
  then show ?case by simp
next
  case (Cons y xs)
  show ?case
  proof (cases "x = y")
    case True
    from Cons.prems(1) have "f y \<notin> f ` set xs" by simp
    then have "\<forall>c \<in> set xs. f c \<noteq> f y" by (metis imageI)
    then have "filter (\<lambda>c. f c = f y) xs = []"
      by (simp add: filter_empty_conv)
    with True show ?thesis by simp
  next
    case False
    with Cons.prems have mem: "x \<in> set xs" by simp
    then have "f x \<in> f ` set xs" by (rule imageI)
    with Cons.prems(1) have "f y \<noteq> f x" by auto
    with Cons.IH mem Cons.prems(1) show ?thesis by simp
  qed
qed

lemma in_K_aux:
  "i \<in> dock_id ` set live \<Longrightarrow>
   i \<in> cd_id ` set (filter (\<lambda>c. cd_id c \<in> dock_id ` set live) P) \<longleftrightarrow> i \<in> cd_id ` set P"
  by (simp only: set_filter) blast

text \<open>
  C1. Reconciliation works on dock ids. After it the stored list is the records of \<open>P\<close>
  whose id occurs among the live docks, unchanged and in their order, followed by new
  records with an empty password: exactly one for each id of a live dock that is absent
  from \<open>P\<close>, carrying that id and the name of the (first) live dock with this id. When
  the live docks have pairwise distinct ids, that is the list of one new record per live
  dock whose id is absent from \<open>P\<close>. Every record of \<open>P\<close> whose id is absent from the
  live docks is gone. Reconciling the result again with the same live list changes
  nothing and leaves the \<open>config_updated\<close> flag unset.
\<close>

theorem sync_docks_reconciles:
  "\<exists>N. fst (sync_docks live P) = filter (\<lambda>c. cd_id c \<in> dock_id ` set live) P @ N
     \<and> distinct (map cd_id N)
     \<and> cd_id ` set N = dock_id ` set live - cd_id ` set P
     \<and> (\<forall>n \<in> set N. \<exists>d. find (\<lambda>d. dock_id d = cd_id n) live = Some d \<and> n = new_record d)
     \<and> (distinct (map dock_id live) \<longrightarrow>
          N = map new_record (filter (\<lambda>d. dock_id d \<notin> cd_id ` set P) live))
     \<and> (\<forall>d \<in> set live. dock_id d \<notin> cd_id ` set P \<longrightarrow>
          (\<exists>n. filter (\<lambda>c. cd_id c = dock_id d) (fst (sync_docks live P)) = [n]
             \<and> cd_password n = ''''
             \<and> (\<exists>d'. find (\<lambda>d'. dock_id d' = dock_id d) live = Some d' \<and> n = new_record d')))
     \<and> sync_docks live (fst (sync_docks live P)) = (fst (sync_docks live P), False)"
proof -
  define K where "K = filter (\<lambda>c. cd_id c \<in> dock_id ` set live) P"
  define u where "u \<longleftrightarrow> (\<exists>c \<in> set P. cd_id c \<notin> dock_id ` set live)"
  have sync: "sync_docks live P = append_new live (K, u)"
    by (simp add: sync_docks_def remove_absent_eq K_def u_def)
  have in_K: "i \<in> cd_id ` set K \<longleftrightarrow> i \<in> cd_id ` set P" if "i \<in> dock_id ` set live" for i
    unfolding K_def using that by (rule in_K_aux)
  have ids: "dock_id ` set live - cd_id ` set K = dock_id ` set live - cd_id ` set P"
    using in_K by blast
  have K_sub: "cd_id ` set K \<subseteq> dock_id ` set live"
    unfolding K_def by (simp only: set_filter) blast
  from append_new_char [of live K u] obtain N where N:
    "fst (append_new live (K, u)) = K @ N" "distinct (map cd_id N)"
    "cd_id ` set N = dock_id ` set live - cd_id ` set K"
    "\<forall>n \<in> set N. \<exists>d. find (\<lambda>d. dock_id d = cd_id n) live = Some d \<and> n = new_record d"
    by blast
  have res: "fst (sync_docks live P) = K @ N"
    using sync N(1) by simp
  have explicit: "N = map new_record (filter (\<lambda>d. dock_id d \<notin> cd_id ` set P) live)"
    if "distinct (map dock_id live)"
  proof -
    have "filter (\<lambda>d. dock_id d \<notin> cd_id ` set K) live
        = filter (\<lambda>d. dock_id d \<notin> cd_id ` set P) live"
    proof (rule filter_cong [OF refl])
      fix d assume "d \<in> set live"
      then have "dock_id d \<in> dock_id ` set live" by (rule imageI)
      from in_K [OF this] show "(dock_id d \<notin> cd_id ` set K) = (dock_id d \<notin> cd_id ` set P)"
        by simp
    qed
    with append_new_distinct [OF that, of K u] N(1) show ?thesis by simp
  qed
  have "cd_id ` set (K @ N) = cd_id ` set K \<union> cd_id ` set N"
    by (simp add: image_Un)
  also have "\<dots> = dock_id ` set live"
    using N(3) K_sub by blast
  finally have "sync_docks live (K @ N) = (K @ N, False)"
    by (rule sync_docks_fixpoint)
  with res have idem: "sync_docks live (fst (sync_docks live P)) = (fst (sync_docks live P), False)"
    by simp
  have n3: "cd_id ` set N = dock_id ` set live - cd_id ` set P"
    using N(3) ids by simp
  show ?thesis
    unfolding K_def [symmetric]
  proof (intro exI [of _ N] conjI impI)
    show "fst (sync_docks live P) = K @ N" by (rule res)
    show "distinct (map cd_id N)" by (rule N(2))
    show "cd_id ` set N = dock_id ` set live - cd_id ` set P" by (rule n3)
    show "\<forall>n \<in> set N. \<exists>d. find (\<lambda>d. dock_id d = cd_id n) live = Some d \<and> n = new_record d"
      by (rule N(4))
    show "N = map new_record (filter (\<lambda>d. dock_id d \<notin> cd_id ` set P) live)"
      if "distinct (map dock_id live)" using that by (rule explicit)
    show "\<forall>d \<in> set live. dock_id d \<notin> cd_id ` set P \<longrightarrow>
          (\<exists>n. filter (\<lambda>c. cd_id c = dock_id d) (fst (sync_docks live P)) = [n]
             \<and> cd_password n = ''''
             \<and> (\<exists>d'. find (\<lambda>d'. dock_id d' = dock_id d) live = Some d' \<and> n = new_record d'))"
    proof (intro ballI impI)
      fix d assume d: "d \<in> set live" and absent: "dock_id d \<notin> cd_id ` set P"
      from d have "dock_id d \<in> dock_id ` set live" by (rule imageI)
      with absent n3 have "dock_id d \<in> cd_id ` set N" by simp
      then obtain n where n: "n \<in> set N" "cd_id n = dock_id d" by auto
      from N(4) n(1) obtain d' where d': "find (\<lambda>d. dock_id d = cd_id n) live = Some d'"
        "n = new_record d'" by blast
      have "set K \<subseteq> set P" unfolding K_def by simp
      with absent have "\<forall>c \<in> set K. cd_id c \<noteq> dock_id d" by (metis imageI subsetD)
      then have "filter (\<lambda>c. cd_id c = dock_id d) K = []"
        by (simp add: filter_empty_conv)
      moreover from filter_distinct_key [OF N(2) n(1)] n(2)
      have "filter (\<lambda>c. cd_id c = dock_id d) N = [n]" by simp
      ultimately have "filter (\<lambda>c. cd_id c = dock_id d) (fst (sync_docks live P)) = [n]"
        by (simp add: res)
      moreover have "cd_password n = ''''" using d'(2) by (simp add: new_record_def)
      moreover have "find (\<lambda>d'. dock_id d' = dock_id d) live = Some d'"
        using d'(1) n(2) by simp
      ultimately show "\<exists>n. filter (\<lambda>c. cd_id c = dock_id d) (fst (sync_docks live P)) = [n]
             \<and> cd_password n = ''''
             \<and> (\<exists>d'. find (\<lambda>d'. dock_id d' = dock_id d) live = Some d' \<and> n = new_record d')"
        using d'(2) by blast
    qed
    show "sync_docks live (fst (sync_docks live P)) = (fst (sync_docks live P), False)"
      by (rule idem)
  qed
qed

text \<open>The scenario of the specification: persisted docks 1 and 2, live docks 2 and 3.\<close>

theorem sync_docks_reconciles_witness:
  "distinct (map dock_id
      [\<lparr>name = ''Dock B'', model_number = ''UCD2'', serial_number = ''S2'',
          dock_id = ''2'', dock_endpoint = ''ws://b'', dock_password = ''''\<rparr>,
       \<lparr>name = ''Dock C'', model_number = ''UCD2'', serial_number = ''S3'',
          dock_id = ''3'', dock_endpoint = ''ws://c'', dock_password = ''''\<rparr>])
   \<and> fst (sync_docks
      [\<lparr>name = ''Dock B'', model_number = ''UCD2'', serial_number = ''S2'',
          dock_id = ''2'', dock_endpoint = ''ws://b'', dock_password = ''''\<rparr>,
       \<lparr>name = ''Dock C'', model_number = ''UCD2'', serial_number = ''S3'',
          dock_id = ''3'', dock_endpoint = ''ws://c'', dock_password = ''''\<rparr>]
      [\<lparr>cd_id = ''1'', cd_name = ''Dock A'', cd_password = ''pa''\<rparr>,
       \<lparr>cd_id = ''2'', cd_name = ''Dock B'', cd_password = ''pb''\<rparr>])
     = [\<lparr>cd_id = ''2'', cd_name = ''Dock B'', cd_password = ''pb''\<rparr>,
        \<lparr>cd_id = ''3'', cd_name = ''Dock C'', cd_password = ''''\<rparr>]"
  using sync_docks_reconciles
    [of "[\<lparr>name = ''Dock B'', model_number = ''UCD2'', serial_number = ''S2'',
          dock_id = ''2'', dock_endpoint = ''ws://b'', dock_password = ''''\<rparr>,
          \<lparr>name = ''Dock C'', model_number = ''UCD2'', serial_number = ''S3'',
          dock_id = ''3'', dock_endpoint = ''ws://c'', dock_password = ''''\<rparr>]"
        "[\<lparr>cd_id = ''1'', cd_name = ''Dock A'', cd_password = ''pa''\<rparr>,
          \<lparr>cd_id = ''2'', cd_name = ''Dock B'', cd_password = ''pb''\<rparr>]"]
  by (auto simp: new_record_def)


section \<open>Properties of the migration\<close>

lemma str_replace_self: "str_replace s s new = new"
proof (cases "s = []")
  case True
  then show ?thesis by (subst str_replace.simps) simp
next
  case False
  have "str_replace [] s new = []"
    using False by (subst str_replace.simps) simp
  with False show ?thesis by (subst str_replace.simps) simp
qed

lemma lower_append: "lower (s @ t) = lower s @ lower t"
  by (simp add: lower_def)

lemma str_in_append_left: "str_in m s \<Longrightarrow> str_in m (s @ t)"
  unfolding str_in_def sublist_def by (metis append.assoc)

lemma str_in_lower_append_left: "str_in m (lower s) \<Longrightarrow> str_in m (lower (s @ t))"
  by (simp add: lower_append str_in_append_left)

lemma async_migrate_entity_entry_marker:
  "str_in ''ucr'' (lower (unique_id entry)) \<or> str_in ''ucd'' (lower (unique_id entry)) \<Longrightarrow>
   async_migrate_entity_entry a entry = None"
  by (auto simp: async_migrate_entity_entry_def)

lemma async_migrate_entity_entry_no_marker:
  "\<not> str_in ''ucr'' (lower (unique_id entry)) \<Longrightarrow>
   \<not> str_in ''ucd'' (lower (unique_id entry)) \<Longrightarrow>
   async_migrate_entity_entry a entry =
     (if domain entry = UPDATE
      then Some (model_number a @ ''_'' @ serial_number a @ ''_update_status'')
      else if domain entry = SWITCH \<and> str_in ''uc.main'' (unique_id entry) then None
      else Some (model_number a @ ''_'' @ unique_id entry))"
  by (auto simp: async_migrate_entity_entry_def str_replace_self Let_def)



lemma migrate_entry_marker:
  "str_in ''ucr'' (lower (unique_id entry)) \<or> str_in ''ucd'' (lower (unique_id entry)) \<Longrightarrow>
   migrate_entry a entry = entry"
  by (simp add: migrate_entry_def async_migrate_entity_entry_marker)









lemma migrate_entries_loop_error:
  "fst (migrate_entries_loop a todo registry) = Some e \<Longrightarrow>
   (\<exists>s. e = ValueError s) \<or> (\<exists>s. e = KeyError s)"
proof (induction todo arbitrary: registry)
  case Nil
  then show ?case by simp
next
  case (Cons x todo)
  show ?case
  proof (cases "async_migrate_entity_entry a x")
    case None
    with Cons show ?thesis by simp
  next
    case (Some new)
    show ?thesis
    proof (cases "async_update_entity registry (entity_id x) new")
      case (Inl e')
      then have "(\<exists>s. e' = ValueError s) \<or> (\<exists>s. e' = KeyError s)"
        by (auto simp: async_update_entity_def split: option.splits if_splits)
      with Inl Some Cons.prems show ?thesis by simp
    next
      case (Inr registry')
      with Some Cons show ?thesis by simp
    qed
  qed
qed


text \<open>
  C3 (as the code has it). Migrating a registry entry twice gives the same entry as
  migrating it once, for every entry, provided the model number of the device contains
  \<open>ucr\<close> or \<open>ucd\<close> (in any letter case): only then does every rewritten unique id
  carry the marker that the second run tests for.
\<close>

theorem migrate_entry_idempotent:
  assumes "str_in ''ucr'' (lower (model_number a)) \<or> str_in ''ucd'' (lower (model_number a))"
  shows "migrate_entry a (migrate_entry a entry) = migrate_entry a entry"
proof (cases "async_migrate_entity_entry a entry")
  case None
  then show ?thesis by (simp add: migrate_entry_def)
next
  case (Some new)
  have nm: "\<not> str_in ''ucr'' (lower (unique_id entry))" "\<not> str_in ''ucd'' (lower (unique_id entry))"
    using Some async_migrate_entity_entry_marker [of entry a] by auto
  from Some async_migrate_entity_entry_no_marker [OF nm, of a]
  obtain rest where "new = model_number a @ rest"
    by (auto split: if_splits)
  with assms have "str_in ''ucr'' (lower new) \<or> str_in ''ucd'' (lower new)"
    by (auto intro: str_in_lower_append_left)
  then have "str_in ''ucr'' (lower (unique_id (migrate_entry a entry)))
      \<or> str_in ''ucd'' (lower (unique_id (migrate_entry a entry)))"
    using Some by (simp add: migrate_entry_def)
  then show ?thesis by (rule migrate_entry_marker)
qed

text \<open>With the model number \<open>UCR2\<close> a second migration changes nothing.\<close>

theorem migrate_entry_idempotent_witness:
  "(str_in ''ucr'' (lower ''UCR2'') \<or> str_in ''ucd'' (lower ''UCR2''))
   \<and> migrate_entry
      \<lparr>name = ''Remote Two'', model_number = ''UCR2'', serial_number = ''SN1'', docks = [],
       external_entity_configuration_available = False, update_in_progress = False,
       update_percent = 0, sw_version = ''1.0'', latest_sw_version = ''1.0'',
       automatic_updates = False, release_notes = ''''\<rparr>
      (migrate_entry
        \<lparr>name = ''Remote Two'', model_number = ''UCR2'', serial_number = ''SN1'', docks = [],
         external_entity_configuration_available = False, update_in_progress = False,
         update_percent = 0, sw_version = ''1.0'', latest_sw_version = ''1.0'',
         automatic_updates = False, release_notes = ''''\<rparr>
        \<lparr>entity_id = ''number.remote'', config_entry_id = ''e1'', domain = NUMBER,
          platform = ''unfoldedcircle'', unique_id = ''brightness''\<rparr>)
     = \<lparr>entity_id = ''number.remote'', config_entry_id = ''e1'', domain = NUMBER,
          platform = ''unfoldedcircle'', unique_id = ''UCR2_brightness''\<rparr>"
  (is "?m \<and> migrate_entry ?a (migrate_entry ?a ?e) = ?r")
proof -
  have m: "str_in ''ucr'' (lower (model_number ?a)) \<or> str_in ''ucd'' (lower (model_number ?a))"
    by code_simp
  have once: "migrate_entry ?a ?e = ?r" by code_simp
  from migrate_entry_idempotent [OF m, of ?e] once m show ?thesis by simp
qed

text \<open>With a model number that carries no marker, here \<open>X\<close>, the second migration
  prefixes the id again.\<close>

theorem migrate_entry_twice_counterexample:
  "migrate_entry
      \<lparr>name = ''Remote'', model_number = ''X'', serial_number = ''SN1'', docks = [],
       external_entity_configuration_available = False, update_in_progress = False,
       update_percent = 0, sw_version = ''1.0'', latest_sw_version = ''1.0'',
       automatic_updates = False, release_notes = ''''\<rparr>
      \<lparr>entity_id = ''number.remote'', config_entry_id = ''e1'', domain = NUMBER,
          platform = ''unfoldedcircle'', unique_id = ''brightness''\<rparr>
     = \<lparr>entity_id = ''number.remote'', config_entry_id = ''e1'', domain = NUMBER,
          platform = ''unfoldedcircle'', unique_id = ''X_brightness''\<rparr>
   \<and> migrate_entry
      \<lparr>name = ''Remote'', model_number = ''X'', serial_number = ''SN1'', docks = [],
       external_entity_configuration_available = False, update_in_progress = False,
       update_percent = 0, sw_version = ''1.0'', latest_sw_version = ''1.0'',
       automatic_updates = False, release_notes = ''''\<rparr>
      (migrate_entry
        \<lparr>name = ''Remote'', model_number = ''X'', serial_number = ''SN1'', docks = [],
         external_entity_configuration_available = False, update_in_progress = False,
         update_percent = 0, sw_version = ''1.0'', latest_sw_version = ''1.0'',
         automatic_updates = False, release_notes = ''''\<rparr>
        \<lparr>entity_id = ''number.remote'', config_entry_id = ''e1'', domain = NUMBER,
          platform = ''unfoldedcircle'', unique_id = ''brightness''\<rparr>)
     = \<lparr>entity_id = ''number.remote'', config_entry_id = ''e1'', domain = NUMBER,
          platform = ''unfoldedcircle'', unique_id = ''X_X_brightness''\<rparr>"
  by code_simp





text \<open>Two legacy entries of the update domain get the same new id: the host refuses the
  second rename, the first entry stays renamed and the version stays 1.\<close>

lemma migrate_v1_unique_id_in_use:
  "let K = \<lparr>DOMAIN = ''unfoldedcircle'', UNFOLDED_CIRCLE_COORDINATOR = ''coordinator'',
            UC_HA_SYSTEM = ''hass'', UC_HA_TOKEN_ID = ''ws-ha-api''\<rparr>;
       a = \<lparr>name = ''Remote Two'', model_number = ''UCR2'', serial_number = ''SN1'', docks = [],
            external_entity_configuration_available = False, update_in_progress = False,
            update_percent = 0, sw_version = ''1.0'', latest_sw_version = ''1.0'',
            automatic_updates = False, release_notes = ''''\<rparr>;
       hass = \<lparr>config_entry = \<lparr>entry_id = ''e1'', version = 1, title = ''Remote Two'',
                 data_host = Some ''10.0.0.2'', data_pin = Some ''1234'', data_apiKey = Some ''key'',
                 data_docks = None, runtime_data = None\<rparr>,
               entity_registry =
                 [\<lparr>entity_id = ''update.fw_a'', config_entry_id = ''e1'', domain = UPDATE,
                   platform = ''unfoldedcircle'', unique_id = ''fw_a''\<rparr>,
                  \<lparr>entity_id = ''update.fw_b'', config_entry_id = ''e1'', domain = UPDATE,
                   platform = ''unfoldedcircle'', unique_id = ''fw_b''\<rparr>],
               device_registry = [],
               issue_registry = map_of [], logger = [], data = map_of []\<rparr>
   in fst (migrate_v1 K a hass) = Some (ValueError ''UCR2_SN1_update_status'')
      \<and> version (config_entry (snd (migrate_v1 K a hass))) = 1
      \<and> map unique_id (entity_registry (snd (migrate_v1 K a hass)))
          = [''UCR2_SN1_update_status'', ''fw_b'']"
  by code_simp


section \<open>Properties of setup\<close>

lemma try_connect_cases:
  "try_connect w entry = Inl err \<Longrightarrow>
   connect w entry = Inl (if err = AuthenticationError then ConfigEntryAuthFailed err
                          else ConfigEntryNotReady err)"
  by (simp add: connect_def)

lemma connect_Inr: "connect w entry = Inr r \<longleftrightarrow> try_connect w entry = Inr r"
  by (auto simp: connect_def split: sum.splits)

lemma setup_docks_runtime_data:
  "setup_docks K w ds (dcs, hass) = (r, hass') \<Longrightarrow>
   config_entry hass' = config_entry hass \<and> data hass' = data hass
   \<and> entity_registry hass' = entity_registry hass \<and> device_registry hass' = device_registry hass"
proof (induction ds arbitrary: dcs hass)
  case Nil
  then show ?case by auto
next
  case (Cons d ds)
  show ?case
  proof (cases "data_docks (config_entry hass)")
    case None
    with Cons.prems show ?thesis by auto
  next
    case (Some stored)
    show ?thesis
      using Cons.prems Some
      by (auto simp: Let_def split: if_splits option.splits dest!: Cons.IH)
  qed
qed

lemma finish_setup_Inr:
  "finish_setup K w a dcs hass = (Inr ok, hass') \<Longrightarrow>
   ok = True
   \<and> runtime_data (config_entry hass') =
        Some \<lparr>coordinator = UnfoldedCircleRemoteCoordinator a, remote = a, dock_coordinators = dcs\<rparr>
   \<and> data hass' = data hass"
  by (auto simp: finish_setup_def Let_def split: option.splits sum.splits if_splits)

lemma setup_docks_no_password:
  "data_docks (config_entry hass) = Some stored \<Longrightarrow> \<not> has_password (assign_password stored d) \<Longrightarrow>
   setup_docks K w (d # ds) (dcs, hass) =
     setup_docks K w ds (dcs,
       hass\<lparr>logger := logger hass @ [EmptyDockPassword (name (assign_password stored d))
                  (dock_id (assign_password stored d)) (title (config_entry hass))],
            issue_registry := (issue_registry hass)
              ((DOMAIN K, ''dock_password_'' @ dock_id (assign_password stored d)) \<mapsto>
                 dock_password_issue (assign_password stored d))\<rparr>)"
  by (simp add: Let_def)

lemma setup_docks_init_raises:
  "data_docks (config_entry hass) = Some stored \<Longrightarrow> has_password (assign_password stored d) \<Longrightarrow>
   dock_coordinator_init w (assign_password stored d) = Some e \<Longrightarrow>
   setup_docks K w (d # ds) (dcs, hass) = (Inl e, hass)"
  by (simp add: Let_def)

lemma setup_docks_update_raises:
  "data_docks (config_entry hass) = Some stored \<Longrightarrow> has_password (assign_password stored d) \<Longrightarrow>
   dock_coordinator_init w (assign_password stored d) = None \<Longrightarrow>
   dock_api_update w (assign_password stored d) = Some ex \<Longrightarrow>
   setup_docks K w (d # ds) (dcs, hass) =
     setup_docks K w ds (dcs,
       hass\<lparr>logger := logger hass @ [DockInitError (name (assign_password stored d))
                  (dock_endpoint (assign_password stored d)) ex]\<rparr>)"
  by (simp add: Let_def)

lemma setup_docks_refresh_raises:
  "data_docks (config_entry hass) = Some stored \<Longrightarrow> has_password (assign_password stored d) \<Longrightarrow>
   dock_coordinator_init w (assign_password stored d) = None \<Longrightarrow>
   dock_api_update w (assign_password stored d) = None \<Longrightarrow>
   dock_first_refresh w (assign_password stored d) = Some ex \<Longrightarrow>
   setup_docks K w (d # ds) (dcs, hass) =
     setup_docks K w ds (dcs,
       hass\<lparr>logger := logger hass @ [DockInitError (name (assign_password stored d))
                  (dock_endpoint (assign_password stored d)) ex]\<rparr>)"
  by (simp add: Let_def)

lemma setup_docks_success:
  "data_docks (config_entry hass) = Some stored \<Longrightarrow> has_password (assign_password stored d) \<Longrightarrow>
   dock_coordinator_init w (assign_password stored d) = None \<Longrightarrow>
   dock_api_update w (assign_password stored d) = None \<Longrightarrow>
   dock_first_refresh w (assign_password stored d) = None \<Longrightarrow>
   setup_docks K w (d # ds) (dcs, hass) =
     setup_docks K w ds (dcs @ [UnfoldedCircleDockCoordinator (assign_password stored d)], hass)"
  by (simp add: Let_def)

text \<open>The docks for which a coordinator is kept.\<close>

lemma setup_docks_coordinators:
  assumes "data_docks (config_entry hass) = Some stored"
    and "\<forall>d \<in> set ds. has_password (assign_password stored d) \<longrightarrow>
           dock_coordinator_init w (assign_password stored d) = None"
  shows "fst (setup_docks K w ds (dcs, hass)) =
     Inr (dcs @ map UnfoldedCircleDockCoordinator
        (filter (\<lambda>d. has_password d \<and> dock_api_update w d = None \<and> dock_first_refresh w d = None)
           (map (assign_password stored) ds)))"
  using assms
proof (induction ds arbitrary: dcs hass)
  case Nil
  then show ?case by simp
next
  case (Cons d ds)
  let ?d = "assign_password stored d"
  from Cons.prems have rest: "\<forall>d \<in> set ds. has_password (assign_password stored d) \<longrightarrow>
           dock_coordinator_init w (assign_password stored d) = None" by simp
  show ?case
  proof (cases "has_password ?d")
    case False
    from setup_docks_no_password [OF Cons.prems(1) False, of K w ds dcs]
      Cons.IH [OF _ rest] Cons.prems(1) False
    show ?thesis by simp
  next
    case True
    with Cons.prems have init: "dock_coordinator_init w ?d = None" by simp
    show ?thesis
    proof (cases "dock_api_update w ?d")
      case (Some ex)
      from setup_docks_update_raises [OF Cons.prems(1) True init Some, of K ds dcs]
        Cons.IH [OF _ rest] Cons.prems(1) True Some
      show ?thesis by simp
    next
      case None
      show ?thesis
      proof (cases "dock_first_refresh w ?d")
        case (Some ex)
        from setup_docks_refresh_raises [OF Cons.prems(1) True init None Some, of K ds dcs]
          Cons.IH [OF _ rest] Cons.prems(1) True None Some
        show ?thesis by simp
      next
        case r: None
        from setup_docks_success [OF Cons.prems(1) True init None r, of K ds dcs]
          Cons.IH [OF Cons.prems(1) rest] True None r
        show ?thesis by simp
      qed
    qed
  qed
qed

lemma setup_docks_logger_mono:
  "set (logger hass) \<subseteq> set (logger (snd (setup_docks K w ds (dcs, hass))))"
proof (induction ds arbitrary: dcs hass)
  case Nil
  then show ?case by simp
next
  case (Cons d ds)
  show ?case
  proof (cases "data_docks (config_entry hass)")
    case None
    then show ?thesis by simp
  next
    case (Some stored)
    let ?d = "assign_password stored d"
    consider (nopw) "\<not> has_password ?d"
      | (init) e where "has_password ?d" "dock_coordinator_init w ?d = Some e"
      | (upd) ex where "has_password ?d" "dock_coordinator_init w ?d = None" "dock_api_update w ?d = Some ex"
      | (refr) ex where "has_password ?d" "dock_coordinator_init w ?d = None" "dock_api_update w ?d = None"
          "dock_first_refresh w ?d = Some ex"
      | (ok) "has_password ?d" "dock_coordinator_init w ?d = None" "dock_api_update w ?d = None"
          "dock_first_refresh w ?d = None"
      by (cases "dock_coordinator_init w ?d"; cases "dock_api_update w ?d";
          cases "dock_first_refresh w ?d") auto
    then show ?thesis
    proof cases
      case nopw
      from Cons.IH [where dcs = dcs and hass = "hass\<lparr>logger := logger hass @ [EmptyDockPassword (name ?d) (dock_id ?d)
             (title (config_entry hass))],
            issue_registry := (issue_registry hass)
              ((DOMAIN K, ''dock_password_'' @ dock_id ?d) \<mapsto> dock_password_issue ?d)\<rparr>"]
      show ?thesis
        unfolding setup_docks_no_password [OF Some nopw] by simp
    next
      case init
      then show ?thesis
        unfolding setup_docks_init_raises [OF Some init] by simp
    next
      case upd
      from Cons.IH [where dcs = dcs and hass = "hass\<lparr>logger := logger hass @
             [DockInitError (name ?d) (dock_endpoint ?d) ex]\<rparr>"]
      show ?thesis
        unfolding setup_docks_update_raises [OF Some upd] by simp
    next
      case refr
      from Cons.IH [where dcs = dcs and hass = "hass\<lparr>logger := logger hass @
             [DockInitError (name ?d) (dock_endpoint ?d) ex]\<rparr>"]
      show ?thesis
        unfolding setup_docks_refresh_raises [OF Some refr] by simp
    next
      case ok
      from Cons.IH [where dcs = "dcs @ [UnfoldedCircleDockCoordinator ?d]" and hass = hass]
      show ?thesis
        unfolding setup_docks_success [OF Some ok] by simp
    qed
  qed
qed

lemma setup_docks_failures_logged:
  assumes "data_docks (config_entry hass) = Some stored"
    and "\<forall>d \<in> set ds. has_password (assign_password stored d) \<longrightarrow>
           dock_coordinator_init w (assign_password stored d) = None"
    and "d \<in> set ds" and "has_password (assign_password stored d)"
    and "dock_api_update w (assign_password stored d) = Some ex
         \<or> dock_api_update w (assign_password stored d) = None
           \<and> dock_first_refresh w (assign_password stored d) = Some ex"
  shows "DockInitError (name (assign_password stored d)) (dock_endpoint (assign_password stored d)) ex
           \<in> set (logger (snd (setup_docks K w ds (dcs, hass))))"
  using assms(1,2,3)
proof (induction ds arbitrary: dcs hass)
  case Nil
  then show ?case by simp
next
  case (Cons c ds)
  let ?c = "assign_password stored c"
  let ?rec = "DockInitError (name (assign_password stored d)) (dock_endpoint (assign_password stored d)) ex"
  from Cons.prems(2) have rest: "\<forall>d \<in> set ds. has_password (assign_password stored d) \<longrightarrow>
           dock_coordinator_init w (assign_password stored d) = None" by simp
  note Some = Cons.prems(1)
  show ?case
  proof (cases "c = d")
    case True
    from assms(4) Cons.prems(2) True have init: "dock_coordinator_init w ?c = None" by simp
    have pw: "has_password ?c" using assms(4) True by simp
    from assms(5) show ?thesis
    proof
      assume u: "dock_api_update w (assign_password stored d) = Some ex"
      then have u': "dock_api_update w ?c = Some ex" using True by simp
      have "?rec \<in> set (logger (hass\<lparr>logger := logger hass @
             [DockInitError (name ?c) (dock_endpoint ?c) ex]\<rparr>))"
        using True by simp
      with setup_docks_logger_mono show ?thesis
        unfolding setup_docks_update_raises [OF Some pw init u'] by blast
    next
      assume "dock_api_update w (assign_password stored d) = None
           \<and> dock_first_refresh w (assign_password stored d) = Some ex"
      then have u': "dock_api_update w ?c = None" and r': "dock_first_refresh w ?c = Some ex"
        using True by simp_all
      have "?rec \<in> set (logger (hass\<lparr>logger := logger hass @
             [DockInitError (name ?c) (dock_endpoint ?c) ex]\<rparr>))"
        using True by simp
      with setup_docks_logger_mono show ?thesis
        unfolding setup_docks_refresh_raises [OF Some pw init u' r'] by blast
    qed
  next
    case False
    with Cons.prems(3) have mem: "d \<in> set ds" by simp
    consider (nopw) "\<not> has_password ?c"
      | (upd) ex where "has_password ?c" "dock_coordinator_init w ?c = None" "dock_api_update w ?c = Some ex"
      | (refr) ex where "has_password ?c" "dock_coordinator_init w ?c = None" "dock_api_update w ?c = None"
          "dock_first_refresh w ?c = Some ex"
      | (ok) "has_password ?c" "dock_coordinator_init w ?c = None" "dock_api_update w ?c = None"
          "dock_first_refresh w ?c = None"
      using Cons.prems(2)
      by (cases "dock_api_update w ?c"; cases "dock_first_refresh w ?c") auto
    then show ?thesis
    proof cases
      case nopw
      show ?thesis
        unfolding setup_docks_no_password [OF Some nopw]
        by (rule Cons.IH [OF _ rest mem]) (simp add: Some)
    next
      case upd
      show ?thesis
        unfolding setup_docks_update_raises [OF Some upd]
        by (rule Cons.IH [OF _ rest mem]) (simp add: Some)
    next
      case refr
      show ?thesis
        unfolding setup_docks_refresh_raises [OF Some refr]
        by (rule Cons.IH [OF _ rest mem]) (simp add: Some)
    next
      case ok
      show ?thesis
        unfolding setup_docks_success [OF Some ok]
        by (rule Cons.IH [OF _ rest mem]) (simp add: Some)
    qed
  qed
qed

lemma setup_docks_issue_kept:
  assumes "\<exists>i. issue_registry hass (DOMAIN K, ''dock_password_'' @ x) = Some i
             \<and> translation_key i = ''dock_password'' \<and> data_id i = Some x"
  shows "\<exists>i. issue_registry (snd (setup_docks K w ds (dcs, hass))) (DOMAIN K, ''dock_password_'' @ x) = Some i
             \<and> translation_key i = ''dock_password'' \<and> data_id i = Some x"
  using assms
proof (induction ds arbitrary: dcs hass)
  case Nil
  then show ?case by simp
next
  case (Cons d ds)
  show ?case
  proof (cases "data_docks (config_entry hass)")
    case None
    with Cons.prems show ?thesis by simp
  next
    case (Some stored)
    let ?d = "assign_password stored d"
    consider (nopw) "\<not> has_password ?d"
      | (init) e where "has_password ?d" "dock_coordinator_init w ?d = Some e"
      | (upd) ex where "has_password ?d" "dock_coordinator_init w ?d = None" "dock_api_update w ?d = Some ex"
      | (refr) ex where "has_password ?d" "dock_coordinator_init w ?d = None" "dock_api_update w ?d = None"
          "dock_first_refresh w ?d = Some ex"
      | (ok) "has_password ?d" "dock_coordinator_init w ?d = None" "dock_api_update w ?d = None"
          "dock_first_refresh w ?d = None"
      by (cases "dock_coordinator_init w ?d"; cases "dock_api_update w ?d";
          cases "dock_first_refresh w ?d") auto
    then show ?thesis
    proof cases
      case nopw
      show ?thesis
        unfolding setup_docks_no_password [OF Some nopw]
        by (rule Cons.IH) (use Cons.prems in \<open>auto simp: dock_password_issue_def\<close>)
    next
      case init
      then show ?thesis
        unfolding setup_docks_init_raises [OF Some init] using Cons.prems by simp
    next
      case upd
      show ?thesis
        unfolding setup_docks_update_raises [OF Some upd]
        by (rule Cons.IH) (use Cons.prems in simp)
    next
      case refr
      show ?thesis
        unfolding setup_docks_refresh_raises [OF Some refr]
        by (rule Cons.IH) (use Cons.prems in simp)
    next
      case ok
      show ?thesis
        unfolding setup_docks_success [OF Some ok]
        by (rule Cons.IH) (use Cons.prems in simp)
    qed
  qed
qed

lemma setup_docks_issue_raised:
  assumes "data_docks (config_entry hass) = Some stored"
    and "\<forall>d \<in> set ds. has_password (assign_password stored d) \<longrightarrow>
           dock_coordinator_init w (assign_password stored d) = None"
    and "d \<in> set ds" and "\<not> has_password (assign_password stored d)"
  shows "\<exists>i. issue_registry (snd (setup_docks K w ds (dcs, hass)))
               (DOMAIN K, ''dock_password_'' @ dock_id (assign_password stored d)) = Some i
             \<and> translation_key i = ''dock_password''
             \<and> data_id i = Some (dock_id (assign_password stored d))"
  using assms(1,2,3)
proof (induction ds arbitrary: dcs hass)
  case Nil
  then show ?case by simp
next
  case (Cons c ds)
  let ?c = "assign_password stored c"
  from Cons.prems(2) have rest: "\<forall>d \<in> set ds. has_password (assign_password stored d) \<longrightarrow>
           dock_coordinator_init w (assign_password stored d) = None" by simp
  note Some = Cons.prems(1)
  show ?case
  proof (cases "c = d")
    case True
    have nopw: "\<not> has_password ?c" using assms(4) True by simp
    show ?thesis
      unfolding setup_docks_no_password [OF Some nopw]
      by (rule setup_docks_issue_kept) (simp add: True dock_password_issue_def)
  next
    case False
    with Cons.prems(3) have mem: "d \<in> set ds" by simp
    consider (nopw) "\<not> has_password ?c"
      | (upd) ex where "has_password ?c" "dock_coordinator_init w ?c = None" "dock_api_update w ?c = Some ex"
      | (refr) ex where "has_password ?c" "dock_coordinator_init w ?c = None" "dock_api_update w ?c = None"
          "dock_first_refresh w ?c = Some ex"
      | (ok) "has_password ?c" "dock_coordinator_init w ?c = None" "dock_api_update w ?c = None"
          "dock_first_refresh w ?c = None"
      using Cons.prems(2)
      by (cases "dock_api_update w ?c"; cases "dock_first_refresh w ?c") auto
    then show ?thesis
    proof cases
      case nopw
      show ?thesis
        unfolding setup_docks_no_password [OF Some nopw]
        by (rule Cons.IH [OF _ rest mem]) (simp add: Some)
    next
      case upd
      show ?thesis
        unfolding setup_docks_update_raises [OF Some upd]
        by (rule Cons.IH [OF _ rest mem]) (simp add: Some)
    next
      case refr
      show ?thesis
        unfolding setup_docks_refresh_raises [OF Some refr]
        by (rule Cons.IH [OF _ rest mem]) (simp add: Some)
    next
      case ok
      show ?thesis
        unfolding setup_docks_success [OF Some ok]
        by (rule Cons.IH [OF _ rest mem]) (simp add: Some)
    qed
  qed
qed

lemma try_connect_Inr: "try_connect w entry = Inr a \<Longrightarrow> a = api w"
  by (auto simp: try_connect_def split: option.splits)

lemma migrate_device_identifiers_error:
  "fst (migrate_device_identifiers D a devices) = Some e \<Longrightarrow> e = StopIteration \<or> e = IndexError"
proof (induction devices)
  case Nil
  then show ?case by simp
next
  case (Cons device devices)
  show ?case
  proof (cases "migrate_device D a device")
    case (Inl e')
    then have "e' = StopIteration \<or> e' = IndexError"
      by (auto simp: migrate_device_def split: list.splits if_splits)
    with Inl Cons.prems show ?thesis by simp
  next
    case (Inr device')
    with Cons show ?thesis by (auto split: prod.splits)
  qed
qed

lemma migrate_v1_error:
  "migrate_v1 K a hass = (Some e, hass') \<Longrightarrow>
   (\<exists>s. e = ValueError s) \<or> (\<exists>s. e = KeyError s) \<or> e = StopIteration \<or> e = IndexError"
proof -
  assume m: "migrate_v1 K a hass = (Some e, hass')"
  obtain r1 registry where ents:
    "async_migrate_entries a (entry_id (config_entry hass)) (entity_registry hass) = (r1, registry)"
    by (cases "async_migrate_entries a (entry_id (config_entry hass)) (entity_registry hass)")
  show ?thesis
  proof (cases r1)
    case (Some e1)
    with m ents have "e = e1"
      by (auto simp: migrate_v1_def split: if_splits)
    moreover from ents Some have "fst (migrate_entries_loop a
        (filter (\<lambda>f. config_entry_id f = entry_id (config_entry hass)) (entity_registry hass))
        (entity_registry hass)) = Some e1"
      by (simp add: async_migrate_entries_def)
    ultimately show ?thesis using migrate_entries_loop_error by blast
  next
    case None
    let ?r = "migrate_device_identifiers (DOMAIN K) a (device_registry hass)"
    from m ents None have "fst ?r = Some e"
      by (cases ?r) (auto simp: migrate_v1_def Let_def split: if_splits option.splits)
    from migrate_device_identifiers_error [OF this] show ?thesis by blast
  qed
qed

lemma setup_docks_error:
  "fst (setup_docks K w ds (dcs, hass)) = Inl e \<Longrightarrow>
   e = KeyError ''docks'' \<or> (\<exists>d. dock_coordinator_init w d = Some e)"
proof (induction ds arbitrary: dcs hass)
  case Nil
  then show ?case by simp
next
  case (Cons d ds)
  show ?case
  proof (cases "data_docks (config_entry hass)")
    case None
    with Cons.prems show ?thesis by simp
  next
    case (Some stored)
    let ?d = "assign_password stored d"
    consider (nopw) "\<not> has_password ?d"
      | (init) e' where "has_password ?d" "dock_coordinator_init w ?d = Some e'"
      | (upd) ex where "has_password ?d" "dock_coordinator_init w ?d = None" "dock_api_update w ?d = Some ex"
      | (refr) ex where "has_password ?d" "dock_coordinator_init w ?d = None" "dock_api_update w ?d = None"
          "dock_first_refresh w ?d = Some ex"
      | (ok) "has_password ?d" "dock_coordinator_init w ?d = None" "dock_api_update w ?d = None"
          "dock_first_refresh w ?d = None"
      by (cases "dock_coordinator_init w ?d"; cases "dock_api_update w ?d";
          cases "dock_first_refresh w ?d") auto
    then show ?thesis
    proof cases
      case nopw
      from Cons.prems show ?thesis
        unfolding setup_docks_no_password [OF Some nopw] by (rule Cons.IH)
    next
      case init
      from Cons.prems have "e = e'"
        unfolding setup_docks_init_raises [OF Some init] by simp
      with init(2) show ?thesis by blast
    next
      case upd
      from Cons.prems show ?thesis
        unfolding setup_docks_update_raises [OF Some upd] by (rule Cons.IH)
    next
      case refr
      from Cons.prems show ?thesis
        unfolding setup_docks_refresh_raises [OF Some refr] by (rule Cons.IH)
    next
      case ok
      from Cons.prems show ?thesis
        unfolding setup_docks_success [OF Some ok] by (rule Cons.IH)
    qed
  qed
qed

lemma finish_setup_error:
  "finish_setup K w a dcs hass = (Inl e, hass') \<Longrightarrow>
   first_refresh w = Some e \<or> get_registered_websocket_url w = Inl e
   \<or> async_forward_entry_setups w = Some e \<or> zeroconf_instance w = Some e
   \<or> init_websocket w = Some e"
  by (auto simp: finish_setup_def Let_def split: option.splits sum.splits if_splits)

lemma migrate_v1_data: "migrate_v1 K a hass = (r, hass') \<Longrightarrow> data hass' = data hass"
  by (auto simp: migrate_v1_def Let_def split: if_splits prod.splits option.splits)

lemma synchronize_docks_data: "synchronize_docks a hass = (r, hass') \<Longrightarrow> data hass' = data hass"
  by (auto simp: synchronize_docks_def split: option.splits)

lemma async_setup_entry_raises:
  "fst (setup_statements K w hass) = Inl e \<Longrightarrow>
   fst (async_setup_entry K w hass) = Inl (coroutine_raises e)"
  by (cases "setup_statements K w hass") (simp add: async_setup_entry_def)

lemma async_setup_entry_returns:
  "setup_statements K w hass = (Inr ok, hass') \<Longrightarrow> async_setup_entry K w hass = (Inr ok, hass')"
  by (simp add: async_setup_entry_def)

lemma async_setup_entry_cases:
  "async_setup_entry K w hass = (r, hass') \<Longrightarrow>
   (\<exists>e. setup_statements K w hass = (Inl e, hass') \<and> r = Inl (coroutine_raises e))
   \<or> (\<exists>ok. setup_statements K w hass = (Inr ok, hass') \<and> r = Inr ok)"
  by (cases "setup_statements K w hass") (auto simp: async_setup_entry_def split: sum.splits)

lemma async_setup_entry_connect_fails:
  "try_connect w (config_entry hass) = Inl err \<Longrightarrow>
   async_setup_entry K w hass =
     (Inl (if err = AuthenticationError then ConfigEntryAuthFailed err
           else ConfigEntryNotReady err), hass)"
  by (simp add: async_setup_entry_def setup_statements_def connect_def coroutine_raises_def)

lemma setup_statements_after_connect:
  assumes "try_connect w (config_entry hass) = Inr a"
  shows "setup_statements K w hass =
     (case coordinator_init w of Some e \<Rightarrow> (Inl e, hass) | None \<Rightarrow>
      case api_init w of Some e \<Rightarrow> (Inl e, hass) | None \<Rightarrow>
      case migrate_v1 K a hass of
        (Some e, hass1) \<Rightarrow> (Inl e, hass1)
      | (None, hass1) \<Rightarrow>
          (case synchronize_docks a hass1 of
             (Some e, hass2) \<Rightarrow> (Inl e, hass2)
           | (None, hass2) \<Rightarrow>
               (case setup_docks K w (docks a) ([], hass2) of
                  (Inl e, hass3) \<Rightarrow> (Inl e, hass3)
                | (Inr dcs, hass3) \<Rightarrow> finish_setup K w (with_passwords a hass3) dcs hass3)))"
  by (simp add: setup_statements_def connect_def assms)

lemma synchronize_docks_error:
  "synchronize_docks a hass = (Some e, hass') \<Longrightarrow> e = KeyError ''docks''"
  by (auto simp: synchronize_docks_def split: option.splits)

lemma synchronize_docks_None:
  "synchronize_docks a hass = (None, hass') \<Longrightarrow> \<exists>stored. data_docks (config_entry hass') = Some stored"
  by (auto simp: synchronize_docks_def split: option.splits)

lemma setup_docks_returned:
  "data_docks (config_entry hass) = Some stored \<Longrightarrow>
   setup_docks K w ds (dcs0, hass) = (Inr dcs, hass') \<Longrightarrow>
   dcs = dcs0 @ map UnfoldedCircleDockCoordinator
     (filter (\<lambda>d. has_password d \<and> dock_api_update w d = None \<and> dock_first_refresh w d = None)
        (map (assign_password stored) ds))"
proof (induction ds arbitrary: dcs0 hass)
  case Nil
  then show ?case by simp
next
  case (Cons d ds)
  note Some = Cons.prems(1)
  let ?d = "assign_password stored d"
  consider (nopw) "\<not> has_password ?d"
    | (init) e' where "has_password ?d" "dock_coordinator_init w ?d = Some e'"
    | (upd) ex where "has_password ?d" "dock_coordinator_init w ?d = None" "dock_api_update w ?d = Some ex"
    | (refr) ex where "has_password ?d" "dock_coordinator_init w ?d = None" "dock_api_update w ?d = None"
        "dock_first_refresh w ?d = Some ex"
    | (ok) "has_password ?d" "dock_coordinator_init w ?d = None" "dock_api_update w ?d = None"
        "dock_first_refresh w ?d = None"
    by (cases "dock_coordinator_init w ?d"; cases "dock_api_update w ?d";
        cases "dock_first_refresh w ?d") auto
  then show ?case
  proof cases
    case nopw
    from Cons.prems(2) [unfolded setup_docks_no_password [OF Some nopw]]
    have "dcs = dcs0 @ map UnfoldedCircleDockCoordinator
     (filter (\<lambda>d. has_password d \<and> dock_api_update w d = None \<and> dock_first_refresh w d = None)
        (map (assign_password stored) ds))"
      by (rule Cons.IH [rotated]) (simp add: Some)
    with nopw show ?thesis by simp
  next
    case init
    from Cons.prems(2) [unfolded setup_docks_init_raises [OF Some init]] show ?thesis by simp
  next
    case upd
    from Cons.prems(2) [unfolded setup_docks_update_raises [OF Some upd]]
    have "dcs = dcs0 @ map UnfoldedCircleDockCoordinator
     (filter (\<lambda>d. has_password d \<and> dock_api_update w d = None \<and> dock_first_refresh w d = None)
        (map (assign_password stored) ds))"
      by (rule Cons.IH [rotated]) (simp add: Some)
    with upd show ?thesis by simp
  next
    case refr
    from Cons.prems(2) [unfolded setup_docks_refresh_raises [OF Some refr]]
    have "dcs = dcs0 @ map UnfoldedCircleDockCoordinator
     (filter (\<lambda>d. has_password d \<and> dock_api_update w d = None \<and> dock_first_refresh w d = None)
        (map (assign_password stored) ds))"
      by (rule Cons.IH [rotated]) (simp add: Some)
    with refr show ?thesis by simp
  next
    case ok
    from Cons.prems(2) [unfolded setup_docks_success [OF Some ok]]
    have "dcs = (dcs0 @ [UnfoldedCircleDockCoordinator ?d]) @ map UnfoldedCircleDockCoordinator
     (filter (\<lambda>d. has_password d \<and> dock_api_update w d = None \<and> dock_first_refresh w d = None)
        (map (assign_password stored) ds))"
      by (rule Cons.IH [rotated]) (simp add: Some)
    with ok show ?thesis by simp
  qed
qed

lemma finish_setup_config_entry:
  "finish_setup K w a dcs hass = (r, hass') \<Longrightarrow>
   config_entry hass' = (config_entry hass)\<lparr>runtime_data :=
      Some \<lparr>coordinator = UnfoldedCircleRemoteCoordinator a, remote = a, dock_coordinators = dcs\<rparr>\<rparr>"
  by (auto simp: finish_setup_def Let_def split: option.splits sum.splits if_splits)

lemma finish_setup_steps:
  "first_refresh w = Some e \<Longrightarrow> fst (finish_setup K w a dcs hass) = Inl e"
  "first_refresh w = None \<Longrightarrow> external_entity_configuration_available a \<Longrightarrow>
     get_registered_websocket_url w = Inl e \<Longrightarrow> fst (finish_setup K w a dcs hass) = Inl e"
  "first_refresh w = None \<Longrightarrow>
     external_entity_configuration_available a \<longrightarrow> (\<exists>b. get_registered_websocket_url w = Inr b) \<Longrightarrow>
     async_forward_entry_setups w = Some e \<Longrightarrow> fst (finish_setup K w a dcs hass) = Inl e"
  "first_refresh w = None \<Longrightarrow>
     external_entity_configuration_available a \<longrightarrow> (\<exists>b. get_registered_websocket_url w = Inr b) \<Longrightarrow>
     async_forward_entry_setups w = None \<Longrightarrow> zeroconf_instance w = Some e \<Longrightarrow>
     fst (finish_setup K w a dcs hass) = Inl e"
  "first_refresh w = None \<Longrightarrow>
     external_entity_configuration_available a \<longrightarrow> (\<exists>b. get_registered_websocket_url w = Inr b) \<Longrightarrow>
     async_forward_entry_setups w = None \<Longrightarrow> zeroconf_instance w = None \<Longrightarrow>
     init_websocket w = Some e \<Longrightarrow> fst (finish_setup K w a dcs hass) = Inl e"
  "first_refresh w = None \<Longrightarrow>
     external_entity_configuration_available a \<longrightarrow> (\<exists>b. get_registered_websocket_url w = Inr b) \<Longrightarrow>
     async_forward_entry_setups w = None \<Longrightarrow> zeroconf_instance w = None \<Longrightarrow>
     init_websocket w = None \<Longrightarrow> fst (finish_setup K w a dcs hass) = Inr True"
  by (auto simp: finish_setup_def Let_def split: option.splits sum.splits if_splits)

lemma async_setup_entry_success:
  assumes r: "async_setup_entry K w hass = (Inr ok, hass')"
  shows "ok = True \<and> data hass' = data hass
     \<and> (\<exists>stored. data_docks (config_entry hass') = Some stored
          \<and> runtime_data (config_entry hass') =
              Some \<lparr>coordinator = UnfoldedCircleRemoteCoordinator
                      ((api w)\<lparr>docks := map (assign_password stored) (docks (api w))\<rparr>),
                    remote = (api w)\<lparr>docks := map (assign_password stored) (docks (api w))\<rparr>,
                    dock_coordinators = map UnfoldedCircleDockCoordinator
                      (filter (\<lambda>d. has_password d \<and> dock_api_update w d = None
                                 \<and> dock_first_refresh w d = None)
                         (map (assign_password stored) (docks (api w))))\<rparr>)"
proof -
  from async_setup_entry_cases [OF r] have st: "setup_statements K w hass = (Inr ok, hass')"
    by auto
  show ?thesis
  proof (cases "try_connect w (config_entry hass)")
    case (Inl err)
    from async_setup_entry_connect_fails [OF Inl, of K] r show ?thesis by simp
  next
    case (Inr a)
    note c = this
    then have a: "a = api w" by (rule try_connect_Inr)
    note unf = setup_statements_after_connect [OF c, of K]
    obtain r1 hass1 where m: "migrate_v1 K a hass = (r1, hass1)" by (cases "migrate_v1 K a hass")
    obtain r2 hass2 where s: "synchronize_docks a hass1 = (r2, hass2)"
      by (cases "synchronize_docks a hass1")
    obtain r3 hass3 where d: "setup_docks K w (docks a) ([], hass2) = (r3, hass3)"
      by (cases "setup_docks K w (docks a) ([], hass2)")
    from st have all: "r2 = None \<and> (\<exists>dcs. r3 = Inr dcs
        \<and> finish_setup K w (with_passwords a hass3) dcs hass3 = (Inr ok, hass'))"
      by (auto simp: unf m s d split: option.splits sum.splits)
    then obtain dcs where r2: "r2 = None" and r3: "r3 = Inr dcs"
      and f: "finish_setup K w (with_passwords a hass3) dcs hass3 = (Inr ok, hass')" by blast
    from synchronize_docks_None [OF s [unfolded r2]] obtain stored
      where stored: "data_docks (config_entry hass2) = Some stored" ..
    from setup_docks_runtime_data [OF d] have ce3: "config_entry hass3 = config_entry hass2"
      and d3: "data hass3 = data hass2" by simp_all
    from stored ce3 have wp: "with_passwords a hass3 = a\<lparr>docks := map (assign_password stored) (docks a)\<rparr>"
      by (simp add: with_passwords_def)
    from setup_docks_returned [OF stored d [unfolded r3]]
    have dcs: "dcs = map UnfoldedCircleDockCoordinator
       (filter (\<lambda>d. has_password d \<and> dock_api_update w d = None \<and> dock_first_refresh w d = None)
          (map (assign_password stored) (docks a)))" by simp
    from finish_setup_Inr [OF f] have ok: "ok = True"
      and rd: "runtime_data (config_entry hass') =
        Some \<lparr>coordinator = UnfoldedCircleRemoteCoordinator (with_passwords a hass3),
              remote = with_passwords a hass3, dock_coordinators = dcs\<rparr>"
      and d': "data hass' = data hass3" by simp_all
    from finish_setup_config_entry [OF f] stored ce3
    have st': "data_docks (config_entry hass') = Some stored" by simp
    from migrate_v1_data [OF m] synchronize_docks_data [OF s] d3 d'
    have dat: "data hass' = data hass" by simp
    from rd have rd': "runtime_data (config_entry hass') =
        Some \<lparr>coordinator = UnfoldedCircleRemoteCoordinator
                (a\<lparr>docks := map (assign_password stored) (docks a)\<rparr>),
              remote = a\<lparr>docks := map (assign_password stored) (docks a)\<rparr>,
              dock_coordinators = map UnfoldedCircleDockCoordinator
                (filter (\<lambda>d. has_password d \<and> dock_api_update w d = None
                           \<and> dock_first_refresh w d = None)
                   (map (assign_password stored) (docks a)))\<rparr>"
      by (simp only: wp dcs)
    show ?thesis using ok dat st' rd' unfolding a by blast
  qed
qed

lemma async_setup_entry_error_sources:
  assumes c: "try_connect w (config_entry hass) = Inr a"
    and r: "async_setup_entry K w hass = (Inl e', hass')"
  shows "\<exists>e. e' = coroutine_raises e
     \<and> (coordinator_init w = Some e \<or> api_init w = Some e
        \<or> (\<exists>s. e = ValueError s) \<or> (\<exists>s. e = KeyError s)
        \<or> e = StopIteration \<or> e = IndexError
        \<or> (\<exists>d. dock_coordinator_init w d = Some e)
        \<or> first_refresh w = Some e \<or> get_registered_websocket_url w = Inl e
        \<or> async_forward_entry_setups w = Some e \<or> zeroconf_instance w = Some e
        \<or> init_websocket w = Some e)"
proof -
  from async_setup_entry_cases [OF r] obtain e where st: "setup_statements K w hass = (Inl e, hass')"
    and e': "e' = coroutine_raises e" by auto
  note unf = setup_statements_after_connect [OF c, of K]
  have "coordinator_init w = Some e \<or> api_init w = Some e
        \<or> (\<exists>s. e = ValueError s) \<or> (\<exists>s. e = KeyError s)
        \<or> e = StopIteration \<or> e = IndexError
        \<or> (\<exists>d. dock_coordinator_init w d = Some e)
        \<or> first_refresh w = Some e \<or> get_registered_websocket_url w = Inl e
        \<or> async_forward_entry_setups w = Some e \<or> zeroconf_instance w = Some e
        \<or> init_websocket w = Some e"
  proof (cases "coordinator_init w")
    case (Some x)
    with st show ?thesis by (simp add: unf)
  next
    case ci: None
    show ?thesis
    proof (cases "api_init w")
      case (Some x)
      with st ci show ?thesis by (simp add: unf)
    next
      case ai: None
      obtain r1 hass1 where m: "migrate_v1 K a hass = (r1, hass1)" by (cases "migrate_v1 K a hass")
      show ?thesis
      proof (cases r1)
        case (Some x)
        with st ci ai m have "e = x" by (simp add: unf)
        with m Some migrate_v1_error [of K a hass e hass1] show ?thesis by blast
      next
        case m1: None
        obtain r2 hass2 where s: "synchronize_docks a hass1 = (r2, hass2)"
          by (cases "synchronize_docks a hass1")
        show ?thesis
        proof (cases r2)
          case (Some x)
          with st ci ai m m1 s have "e = x" by (simp add: unf)
          with s Some synchronize_docks_error [of a hass1 e hass2] show ?thesis by blast
        next
          case s1: None
          obtain r3 hass3 where d: "setup_docks K w (docks a) ([], hass2) = (r3, hass3)"
            by (cases "setup_docks K w (docks a) ([], hass2)")
          show ?thesis
          proof (cases r3)
            case (Inl x)
            with st ci ai m m1 s s1 d have "e = x" by (simp add: unf)
            with d Inl setup_docks_error [of K w "docks a" "[]" hass2 e] show ?thesis by auto
          next
            case (Inr dcs)
            with st ci ai m m1 s s1 d
            have "finish_setup K w (with_passwords a hass3) dcs hass3 = (Inl e, hass')"
              by (simp add: unf)
            from finish_setup_error [OF this] show ?thesis by blast
          qed
        qed
      qed
    qed
  qed
  with e' show ?thesis by blast
qed

lemma async_setup_entry_finish:
  assumes "try_connect w (config_entry hass) = Inr a"
    and "coordinator_init w = None" and "api_init w = None"
    and "migrate_v1 K a hass = (None, h1)"
    and "synchronize_docks a h1 = (None, h2)"
    and "setup_docks K w (docks a) ([], h2) = (Inr dcs, h3)"
  shows "fst (finish_setup K w (with_passwords a h3) dcs h3) = Inl e \<Longrightarrow>
         fst (async_setup_entry K w hass) = Inl (coroutine_raises e)"
    and "fst (finish_setup K w (with_passwords a h3) dcs h3) = Inr ok \<Longrightarrow>
         fst (async_setup_entry K w hass) = Inr ok"
proof -
  have st: "setup_statements K w hass = finish_setup K w (with_passwords a h3) dcs h3"
    using assms by (simp add: setup_statements_after_connect)
  show "fst (finish_setup K w (with_passwords a h3) dcs h3) = Inl e \<Longrightarrow>
         fst (async_setup_entry K w hass) = Inl (coroutine_raises e)"
    using st by (simp add: async_setup_entry_raises)
  show "fst (finish_setup K w (with_passwords a h3) dcs h3) = Inr ok \<Longrightarrow>
         fst (async_setup_entry K w hass) = Inr ok"
    using st by (cases "finish_setup K w (with_passwords a h3) dcs h3")
      (simp add: async_setup_entry_def)
qed

lemma with_passwords_external:
  "external_entity_configuration_available (with_passwords a hass)
     = external_entity_configuration_available a"
  by (simp add: with_passwords_def split: option.splits)


text \<open>
  C6 (as the code has it). In the dock loop of setup, as long as the construction of a
  dock coordinator does not raise: the loop completes for every list of live docks; the
  coordinators kept are exactly those of the docks with a non-empty password whose
  client update and eager first refresh both return, in the order of the live list; for
  a dock with a non-empty password whose client update or first refresh raises, the
  exception is logged with the dock's name and endpoint and no coordinator is kept for
  that dock; for a dock with an empty password the issue \<open>dock_password_{id}\<close> with
  translation key \<open>dock_password\<close> is raised and no coordinator is kept for it. The
  construction of the coordinator is outside the \<open>try\<close>, so the theorem assumes that
  it returns.
\<close>

theorem setup_docks_isolates_failures:
  assumes "data_docks (config_entry hass) = Some stored"
    and "\<forall>d \<in> set ds. has_password (assign_password stored d) \<longrightarrow>
           dock_coordinator_init w (assign_password stored d) = None"
  shows "fst (setup_docks K w ds ([], hass)) =
       Inr (map UnfoldedCircleDockCoordinator
         (filter (\<lambda>d. has_password d \<and> dock_api_update w d = None \<and> dock_first_refresh w d = None)
            (map (assign_password stored) ds)))
     \<and> (\<forall>d \<in> set ds. \<forall>ex.
           has_password (assign_password stored d)
           \<and> (dock_api_update w (assign_password stored d) = Some ex
               \<or> dock_api_update w (assign_password stored d) = None
                 \<and> dock_first_refresh w (assign_password stored d) = Some ex) \<longrightarrow>
           DockInitError (name (assign_password stored d)) (dock_endpoint (assign_password stored d)) ex
             \<in> set (logger (snd (setup_docks K w ds ([], hass))))
           \<and> (\<forall>cs. fst (setup_docks K w ds ([], hass)) = Inr cs \<longrightarrow>
                 UnfoldedCircleDockCoordinator (assign_password stored d) \<notin> set cs))
     \<and> (\<forall>d \<in> set ds.
           \<not> has_password (assign_password stored d) \<longrightarrow>
           (\<exists>i. issue_registry (snd (setup_docks K w ds ([], hass)))
                  (DOMAIN K, ''dock_password_'' @ dock_id (assign_password stored d)) = Some i
                \<and> translation_key i = ''dock_password''
                \<and> data_id i = Some (dock_id (assign_password stored d)))
           \<and> (\<forall>cs. fst (setup_docks K w ds ([], hass)) = Inr cs \<longrightarrow>
                 UnfoldedCircleDockCoordinator (assign_password stored d) \<notin> set cs))"
proof -
  let ?good = "\<lambda>d. has_password d \<and> dock_api_update w d = None \<and> dock_first_refresh w d = None"
  let ?cs = "map UnfoldedCircleDockCoordinator (filter ?good (map (assign_password stored) ds))"
  have res: "fst (setup_docks K w ds ([], hass)) = Inr ?cs"
    using setup_docks_coordinators [OF assms, of K "[]"] by simp
  have not_kept: "UnfoldedCircleDockCoordinator d' \<notin> set ?cs" if "\<not> ?good d'" for d'
    using that by auto
  have failing: "DockInitError (name (assign_password stored d)) (dock_endpoint (assign_password stored d)) ex
             \<in> set (logger (snd (setup_docks K w ds ([], hass))))
           \<and> (\<forall>cs. fst (setup_docks K w ds ([], hass)) = Inr cs \<longrightarrow>
                 UnfoldedCircleDockCoordinator (assign_password stored d) \<notin> set cs)"
    if "d \<in> set ds" and "has_password (assign_password stored d)
           \<and> (dock_api_update w (assign_password stored d) = Some ex
               \<or> dock_api_update w (assign_password stored d) = None
                 \<and> dock_first_refresh w (assign_password stored d) = Some ex)" for d ex
  proof
    from that have pw: "has_password (assign_password stored d)"
      and f: "dock_api_update w (assign_password stored d) = Some ex
               \<or> dock_api_update w (assign_password stored d) = None
                 \<and> dock_first_refresh w (assign_password stored d) = Some ex" by simp_all
    show "DockInitError (name (assign_password stored d)) (dock_endpoint (assign_password stored d)) ex
             \<in> set (logger (snd (setup_docks K w ds ([], hass))))"
      by (rule setup_docks_failures_logged [OF assms that(1) pw f])
    from f have "\<not> ?good (assign_password stored d)" by auto
    from not_kept [OF this] res
    show "\<forall>cs. fst (setup_docks K w ds ([], hass)) = Inr cs \<longrightarrow>
                 UnfoldedCircleDockCoordinator (assign_password stored d) \<notin> set cs"
      by simp
  qed
  have empty: "(\<exists>i. issue_registry (snd (setup_docks K w ds ([], hass)))
                  (DOMAIN K, ''dock_password_'' @ dock_id (assign_password stored d)) = Some i
                \<and> translation_key i = ''dock_password''
                \<and> data_id i = Some (dock_id (assign_password stored d)))
           \<and> (\<forall>cs. fst (setup_docks K w ds ([], hass)) = Inr cs \<longrightarrow>
                 UnfoldedCircleDockCoordinator (assign_password stored d) \<notin> set cs)"
    if "d \<in> set ds" and "\<not> has_password (assign_password stored d)" for d
  proof
    show "\<exists>i. issue_registry (snd (setup_docks K w ds ([], hass)))
                  (DOMAIN K, ''dock_password_'' @ dock_id (assign_password stored d)) = Some i
                \<and> translation_key i = ''dock_password''
                \<and> data_id i = Some (dock_id (assign_password stored d))"
      by (rule setup_docks_issue_raised [OF assms that])
    from that(2) have "\<not> ?good (assign_password stored d)" by simp
    from not_kept [OF this] res
    show "\<forall>cs. fst (setup_docks K w ds ([], hass)) = Inr cs \<longrightarrow>
                 UnfoldedCircleDockCoordinator (assign_password stored d) \<notin> set cs"
      by simp
  qed
  from res failing empty show ?thesis by blast
qed

text \<open>Three live docks: the first refresh of dock A raises, dock B has no password,
  dock C is set up.\<close>

theorem setup_docks_isolates_failures_witness:
  "let K = \<lparr>DOMAIN = ''unfoldedcircle'', UNFOLDED_CIRCLE_COORDINATOR = ''coordinator'',
            UC_HA_SYSTEM = ''hass'', UC_HA_TOKEN_ID = ''ws-ha-api''\<rparr>;
       a = \<lparr>name = ''Remote Two'', model_number = ''UCR2'', serial_number = ''SN1'', docks = [],
            external_entity_configuration_available = False, update_in_progress = False,
            update_percent = 0, sw_version = ''1.0'', latest_sw_version = ''1.0'',
            automatic_updates = False, release_notes = ''''\<rparr>;
       w = \<lparr>validate_connection = None, get_remote_information = None, api = a,
            coordinator_init = None, api_init = None,
            dock_coordinator_init = (\<lambda>d. None),
            dock_api_update = (\<lambda>d. None),
            dock_first_refresh = (\<lambda>d. if dock_id d = ''A'' then Some ConnectionError else None),
            first_refresh = None, get_registered_websocket_url = Inr True,
            async_forward_entry_setups = None, zeroconf_instance = None, init_websocket = None,
            close_websocket = None, async_delete_issue = (\<lambda>i. None),
            async_unload_platforms = Inr True,
            delete_token_for_external_system = Inr ''ok''\<rparr>;
       stored = [\<lparr>cd_id = ''A'', cd_name = ''Dock A'', cd_password = ''secret''\<rparr>,
                 \<lparr>cd_id = ''B'', cd_name = ''Dock B'', cd_password = ''''\<rparr>,
                 \<lparr>cd_id = ''C'', cd_name = ''Dock C'', cd_password = ''pw''\<rparr>];
       hass = \<lparr>config_entry = \<lparr>entry_id = ''e1'', version = 2, title = ''Remote Two'',
                 data_host = Some ''10.0.0.2'', data_pin = Some ''1234'', data_apiKey = Some ''key'',
                 data_docks = Some stored, runtime_data = None\<rparr>,
               entity_registry = [], device_registry = [],
               issue_registry = Map.empty, logger = [], data = Map.empty\<rparr>;
       dA = \<lparr>name = ''Dock A'', model_number = ''UCD2'', serial_number = ''SA'',
             dock_id = ''A'', dock_endpoint = ''ws://a'', dock_password = ''''\<rparr>;
       dB = \<lparr>name = ''Dock B'', model_number = ''UCD2'', serial_number = ''SB'',
             dock_id = ''B'', dock_endpoint = ''ws://b'', dock_password = ''''\<rparr>;
       dC = \<lparr>name = ''Dock C'', model_number = ''UCD2'', serial_number = ''SC'',
             dock_id = ''C'', dock_endpoint = ''ws://c'', dock_password = ''''\<rparr>
   in fst (setup_docks K w [dA, dB, dC] ([], hass))
        = Inr [UnfoldedCircleDockCoordinator (dC\<lparr>dock_password := ''pw''\<rparr>)]
      \<and> DockInitError ''Dock A'' ''ws://a'' ConnectionError
           \<in> set (logger (snd (setup_docks K w [dA, dB, dC] ([], hass))))
      \<and> map_option translation_key
           (issue_registry (snd (setup_docks K w [dA, dB, dC] ([], hass)))
              (''unfoldedcircle'', ''dock_password_B'')) = Some ''dock_password''"
  (is "let K = ?K; a = ?a; w = ?W a; stored = ?stored; hass = ?H stored; dA = ?dA; dB = ?dB; dC = ?dC in _")
proof -
  let ?w = "?W ?a"
  let ?hass = "?H ?stored"
  let ?ds = "[?dA, ?dB, ?dC]"
  have h1: "data_docks (config_entry ?hass) = Some ?stored" by simp
  have h2: "\<forall>d \<in> set ?ds. has_password (assign_password ?stored d) \<longrightarrow>
           dock_coordinator_init ?w (assign_password ?stored d) = None" by simp
  have pA: "has_password (assign_password ?stored ?dA)" by (simp add: has_password_def)
  have pB: "\<not> has_password (assign_password ?stored ?dB)" by (simp add: has_password_def)
  have fA: "dock_api_update ?w (assign_password ?stored ?dA) = None
      \<and> dock_first_refresh ?w (assign_password ?stored ?dA) = Some ConnectionError" by simp
  note t = setup_docks_isolates_failures [OF h1 h2, of ?K]
  note t1 = t [THEN conjunct1]
  note t2 = t [THEN conjunct2, THEN conjunct1, rule_format]
  note t3 = t [THEN conjunct2, THEN conjunct2, rule_format]
  have mA: "?dA \<in> set ?ds" and mB: "?dB \<in> set ?ds" by simp_all
  have aA: "assign_password ?stored ?dA = ?dA\<lparr>dock_password := ''secret''\<rparr>"
    and aB: "assign_password ?stored ?dB = ?dB" by simp_all
  from t1 have 1: "fst (setup_docks ?K ?w ?ds ([], ?hass))
        = Inr [UnfoldedCircleDockCoordinator (?dC\<lparr>dock_password := ''pw''\<rparr>)]"
    by (simp add: has_password_def)
  have hA: "has_password (assign_password ?stored ?dA)
      \<and> (dock_api_update ?w (assign_password ?stored ?dA) = Some ConnectionError
         \<or> dock_api_update ?w (assign_password ?stored ?dA) = None
           \<and> dock_first_refresh ?w (assign_password ?stored ?dA) = Some ConnectionError)"
    using pA fA by blast
  from t2 [OF mA hA] have "DockInitError (name (assign_password ?stored ?dA))
        (dock_endpoint (assign_password ?stored ?dA)) ConnectionError
           \<in> set (logger (snd (setup_docks ?K ?w ?ds ([], ?hass))))"
    by (rule conjunct1)
  then have 2: "DockInitError ''Dock A'' ''ws://a'' ConnectionError
           \<in> set (logger (snd (setup_docks ?K ?w ?ds ([], ?hass))))"
    unfolding aA by (simp del: setup_docks.simps)
  from t3 [OF mB pB] have "\<exists>i. issue_registry (snd (setup_docks ?K ?w ?ds ([], ?hass)))
        (DOMAIN ?K, ''dock_password_'' @ dock_id (assign_password ?stored ?dB)) = Some i
        \<and> translation_key i = ''dock_password''
        \<and> data_id i = Some (dock_id (assign_password ?stored ?dB))"
    by (rule conjunct1)
  then have "\<exists>i. issue_registry (snd (setup_docks ?K ?w ?ds ([], ?hass)))
        (''unfoldedcircle'', ''dock_password_B'') = Some i \<and> translation_key i = ''dock_password''"
    unfolding aB by (auto simp del: setup_docks.simps)
  then have 3: "map_option translation_key
           (issue_registry (snd (setup_docks ?K ?w ?ds ([], ?hass)))
              (''unfoldedcircle'', ''dock_password_B'')) = Some ''dock_password''"
    by (auto simp del: setup_docks.simps)
  show ?thesis unfolding Let_def by (rule conjI [OF 1 conjI [OF 2 3]])
qed

text \<open>One live dock with a password whose coordinator cannot be constructed: the
  exception leaves \<open>async_setup_entry\<close>.\<close>

theorem setup_dock_coordinator_init_counterexample:
  "fst (async_setup_entry
      \<lparr>DOMAIN = ''unfoldedcircle'', UNFOLDED_CIRCLE_COORDINATOR = ''coordinator'',
       UC_HA_SYSTEM = ''hass'', UC_HA_TOKEN_ID = ''ws-ha-api''\<rparr>
      \<lparr>validate_connection = None, get_remote_information = None,
       api = \<lparr>name = ''Remote Two'', model_number = ''UCR2'', serial_number = ''SN1'',
              docks = [\<lparr>name = ''Dock A'', model_number = ''UCD2'', serial_number = ''SA'',
                        dock_id = ''A'', dock_endpoint = ''ws://a'', dock_password = ''''\<rparr>],
              external_entity_configuration_available = False, update_in_progress = False,
              update_percent = 0, sw_version = ''1.0'', latest_sw_version = ''1.0'',
              automatic_updates = False, release_notes = ''''\<rparr>,
       coordinator_init = None, api_init = None,
       dock_coordinator_init = map_of
         [(\<lparr>name = ''Dock A'', model_number = ''UCD2'', serial_number = ''SA'',
            dock_id = ''A'', dock_endpoint = ''ws://a'', dock_password = ''secret''\<rparr>,
           OtherError ''coordinator'')],
       dock_api_update = map_of [], dock_first_refresh = map_of [],
       first_refresh = None, get_registered_websocket_url = Inr True,
       async_forward_entry_setups = None, zeroconf_instance = None, init_websocket = None,
       close_websocket = None, async_delete_issue = map_of [],
       async_unload_platforms = Inr True, delete_token_for_external_system = Inr ''ok''\<rparr>
      \<lparr>config_entry = \<lparr>entry_id = ''e1'', version = 2, title = ''Remote Two'',
         data_host = Some ''10.0.0.2'', data_pin = Some ''1234'', data_apiKey = Some ''key'',
         data_docks = Some [\<lparr>cd_id = ''A'', cd_name = ''Dock A'', cd_password = ''secret''\<rparr>],
         runtime_data = None\<rparr>,
       entity_registry = [], device_registry = [],
       issue_registry = map_of [], logger = [], data = map_of []\<rparr>)
   = Inl (OtherError ''coordinator'')"
  by code_simp


text \<open>
  C5 (as the code has it). An exception raised inside the first \<open>try\<close> (creating the
  client, validating the connection, fetching the remote information) leaves setup as
  \<open>ConfigEntryAuthFailed\<close> when it is an \<open>AuthenticationError\<close> and as
  \<open>ConfigEntryNotReady\<close> otherwise, with the host's state untouched. When setup
  returns, it returns \<open>True\<close> and the entry's runtime data holds the device client with
  the stored dock passwords written to its docks, the coordinator of that client, and
  the coordinators of exactly the docks that have a password and whose update and first
  refresh returned. After the first \<open>try\<close> nothing is caught: following the statements
  in their order, the first step that raises ends setup with its exception (a
  \<open>StopIteration\<close> as the \<open>RuntimeError\<close> that Python makes of it in a coroutine), and
  when every step returns, setup returns \<open>True\<close>. Conversely, an exception that leaves
  setup after the first \<open>try\<close> is the one of the coordinator's construction, of
  \<open>api.init\<close>, a \<open>ValueError\<close> or \<open>KeyError\<close> (the host's registry update, the dock
  list), a \<open>StopIteration\<close> or \<open>IndexError\<close> (the device identifiers), or the one of
  a dock coordinator's construction, the first refresh, the websocket URL lookup, the
  forwarding to the platforms, zeroconf or the websocket.
\<close>

theorem async_setup_entry_outcomes:
  "(\<forall>err. try_connect w (config_entry hass) = Inl err \<longrightarrow>
      async_setup_entry K w hass =
        (Inl (if err = AuthenticationError then ConfigEntryAuthFailed err
              else ConfigEntryNotReady err), hass))
   \<and> (\<forall>ok hass'. async_setup_entry K w hass = (Inr ok, hass') \<longrightarrow>
        ok = True
        \<and> (\<exists>stored. data_docks (config_entry hass') = Some stored
             \<and> runtime_data (config_entry hass') =
                 Some \<lparr>coordinator = UnfoldedCircleRemoteCoordinator
                         ((api w)\<lparr>docks := map (assign_password stored) (docks (api w))\<rparr>),
                       remote = (api w)\<lparr>docks := map (assign_password stored) (docks (api w))\<rparr>,
                       dock_coordinators = map UnfoldedCircleDockCoordinator
                         (filter (\<lambda>d. has_password d \<and> dock_api_update w d = None
                                    \<and> dock_first_refresh w d = None)
                            (map (assign_password stored) (docks (api w))))\<rparr>))
   \<and> (\<forall>a. try_connect w (config_entry hass) = Inr a \<longrightarrow>
        (\<forall>e. coordinator_init w = Some e \<longrightarrow>
           fst (async_setup_entry K w hass) = Inl (coroutine_raises e))
      \<and> (coordinator_init w = None \<longrightarrow>
          (\<forall>e. api_init w = Some e \<longrightarrow>
             fst (async_setup_entry K w hass) = Inl (coroutine_raises e))
        \<and> (api_init w = None \<longrightarrow>
            (\<forall>e h1. migrate_v1 K a hass = (Some e, h1) \<longrightarrow>
               fst (async_setup_entry K w hass) = Inl (coroutine_raises e))
          \<and> (\<forall>h1. migrate_v1 K a hass = (None, h1) \<longrightarrow>
              (\<forall>e h2. synchronize_docks a h1 = (Some e, h2) \<longrightarrow>
                 fst (async_setup_entry K w hass) = Inl (coroutine_raises e))
            \<and> (\<forall>h2. synchronize_docks a h1 = (None, h2) \<longrightarrow>
                (\<forall>e h3. setup_docks K w (docks a) ([], h2) = (Inl e, h3) \<longrightarrow>
                   fst (async_setup_entry K w hass) = Inl (coroutine_raises e))
              \<and> (\<forall>dcs h3. setup_docks K w (docks a) ([], h2) = (Inr dcs, h3) \<longrightarrow>
                  (\<forall>e. first_refresh w = Some e \<longrightarrow>
                     fst (async_setup_entry K w hass) = Inl (coroutine_raises e))
                \<and> (first_refresh w = None \<longrightarrow>
                    (\<forall>e. external_entity_configuration_available a
                         \<and> get_registered_websocket_url w = Inl e \<longrightarrow>
                       fst (async_setup_entry K w hass) = Inl (coroutine_raises e))
                  \<and> ((external_entity_configuration_available a \<longrightarrow>
                         (\<exists>b. get_registered_websocket_url w = Inr b)) \<longrightarrow>
                      (\<forall>e. async_forward_entry_setups w = Some e \<longrightarrow>
                         fst (async_setup_entry K w hass) = Inl (coroutine_raises e))
                    \<and> (async_forward_entry_setups w = None \<longrightarrow>
                        (\<forall>e. zeroconf_instance w = Some e \<longrightarrow>
                           fst (async_setup_entry K w hass) = Inl (coroutine_raises e))
                      \<and> (zeroconf_instance w = None \<longrightarrow>
                          (\<forall>e. init_websocket w = Some e \<longrightarrow>
                             fst (async_setup_entry K w hass) = Inl (coroutine_raises e))
                        \<and> (init_websocket w = None \<longrightarrow>
                             fst (async_setup_entry K w hass) = Inr True)))))))))))
   \<and> (\<forall>a e' hass'. try_connect w (config_entry hass) = Inr a
          \<and> async_setup_entry K w hass = (Inl e', hass') \<longrightarrow>
        (\<exists>e. e' = coroutine_raises e
           \<and> (coordinator_init w = Some e \<or> api_init w = Some e
              \<or> (\<exists>s. e = ValueError s) \<or> (\<exists>s. e = KeyError s)
              \<or> e = StopIteration \<or> e = IndexError
              \<or> (\<exists>d. dock_coordinator_init w d = Some e)
              \<or> first_refresh w = Some e \<or> get_registered_websocket_url w = Inl e
              \<or> async_forward_entry_setups w = Some e \<or> zeroconf_instance w = Some e
              \<or> init_websocket w = Some e)))"
  (is "?connect \<and> ?success \<and> ?later \<and> ?sources")
proof (intro conjI)
  show ?connect by (simp add: async_setup_entry_connect_fails)
  show ?success using async_setup_entry_success [of K w hass] by blast
  show ?sources using async_setup_entry_error_sources [of w hass _ K] by blast
  show ?later
  proof (intro allI impI conjI)
    fix a e assume c: "try_connect w (config_entry hass) = Inr a"
    note unf = setup_statements_after_connect [OF c, of K]
    {
      assume "coordinator_init w = Some e"
      then show "fst (async_setup_entry K w hass) = Inl (coroutine_raises e)"
        by (intro async_setup_entry_raises) (simp add: unf)
    }
    assume ci: "coordinator_init w = None"
    {
      assume "api_init w = Some e"
      with ci show "fst (async_setup_entry K w hass) = Inl (coroutine_raises e)"
        by (intro async_setup_entry_raises) (simp add: unf)
    }
    assume ai: "api_init w = None"
    fix h1
    {
      assume "migrate_v1 K a hass = (Some e, h1)"
      with ci ai show "fst (async_setup_entry K w hass) = Inl (coroutine_raises e)"
        by (intro async_setup_entry_raises) (simp add: unf)
    }
    assume m: "migrate_v1 K a hass = (None, h1)"
    fix h2
    {
      assume "synchronize_docks a h1 = (Some e, h2)"
      with ci ai m show "fst (async_setup_entry K w hass) = Inl (coroutine_raises e)"
        by (intro async_setup_entry_raises) (simp add: unf)
    }
    assume s: "synchronize_docks a h1 = (None, h2)"
    fix h3
    {
      assume "setup_docks K w (docks a) ([], h2) = (Inl e, h3)"
      with ci ai m s show "fst (async_setup_entry K w hass) = Inl (coroutine_raises e)"
        by (intro async_setup_entry_raises) (simp add: unf)
    }
    fix dcs
    assume d: "setup_docks K w (docks a) ([], h2) = (Inr dcs, h3)"
    note fin = async_setup_entry_finish [OF c ci ai m s d]
    let ?a = "with_passwords a h3"
    {
      assume "first_refresh w = Some e"
      then show "fst (async_setup_entry K w hass) = Inl (coroutine_raises e)"
        by (intro fin(1) finish_setup_steps(1))
    }
    assume fr: "first_refresh w = None"
    {
      assume "external_entity_configuration_available a \<and> get_registered_websocket_url w = Inl e"
      then have "external_entity_configuration_available ?a" "get_registered_websocket_url w = Inl e"
        by (simp_all add: with_passwords_external)
      with fr show "fst (async_setup_entry K w hass) = Inl (coroutine_raises e)"
        by (intro fin(1) finish_setup_steps(2))
    }
    assume "external_entity_configuration_available a \<longrightarrow> (\<exists>b. get_registered_websocket_url w = Inr b)"
    then have url: "external_entity_configuration_available ?a \<longrightarrow>
        (\<exists>b. get_registered_websocket_url w = Inr b)"
      by (simp add: with_passwords_external)
    {
      assume "async_forward_entry_setups w = Some e"
      with fr url show "fst (async_setup_entry K w hass) = Inl (coroutine_raises e)"
        by (intro fin(1) finish_setup_steps(3))
    }
    assume fw: "async_forward_entry_setups w = None"
    {
      assume "zeroconf_instance w = Some e"
      with fr url fw show "fst (async_setup_entry K w hass) = Inl (coroutine_raises e)"
        by (intro fin(1) finish_setup_steps(4))
    }
    assume zc: "zeroconf_instance w = None"
    {
      assume "init_websocket w = Some e"
      with fr url fw zc show "fst (async_setup_entry K w hass) = Inl (coroutine_raises e)"
        by (intro fin(1) finish_setup_steps(5))
    }
    assume "init_websocket w = None"
    with fr url fw zc show "fst (async_setup_entry K w hass) = Inr True"
      by (intro fin(2) finish_setup_steps(6))
  qed
qed

text \<open>The three failure kinds of the first \<open>try\<close>, a successful setup, and a
  websocket that cannot be opened.\<close>

theorem async_setup_entry_outcomes_witness:
  "let K = \<lparr>DOMAIN = ''unfoldedcircle'', UNFOLDED_CIRCLE_COORDINATOR = ''coordinator'',
            UC_HA_SYSTEM = ''hass'', UC_HA_TOKEN_ID = ''ws-ha-api''\<rparr>;
       a = \<lparr>name = ''Remote Two'', model_number = ''UCR2'', serial_number = ''SN1'', docks = [],
            external_entity_configuration_available = False, update_in_progress = False,
            update_percent = 0, sw_version = ''1.0'', latest_sw_version = ''1.0'',
            automatic_updates = False, release_notes = ''''\<rparr>;
       w = \<lparr>validate_connection = None, get_remote_information = None, api = a,
            coordinator_init = None, api_init = None,
            dock_coordinator_init = map_of [], dock_api_update = map_of [],
            dock_first_refresh = map_of [],
            first_refresh = None, get_registered_websocket_url = Inr True,
            async_forward_entry_setups = None, zeroconf_instance = None, init_websocket = None,
            close_websocket = None, async_delete_issue = map_of [],
            async_unload_platforms = Inr True, delete_token_for_external_system = Inr ''ok''\<rparr>;
       hass = \<lparr>config_entry = \<lparr>entry_id = ''e1'', version = 2, title = ''Remote Two'',
                 data_host = Some ''10.0.0.2'', data_pin = Some ''1234'', data_apiKey = Some ''key'',
                 data_docks = Some [], runtime_data = None\<rparr>,
               entity_registry = [], device_registry = [],
               issue_registry = map_of [], logger = [], data = map_of []\<rparr>
   in fst (async_setup_entry K (w\<lparr>validate_connection := Some AuthenticationError\<rparr>) hass)
        = Inl (ConfigEntryAuthFailed AuthenticationError)
      \<and> fst (async_setup_entry K (w\<lparr>get_remote_information := Some ConnectionError\<rparr>) hass)
        = Inl (ConfigEntryNotReady ConnectionError)
      \<and> fst (async_setup_entry K (w\<lparr>validate_connection := Some (OtherError ''timeout'')\<rparr>) hass)
        = Inl (ConfigEntryNotReady (OtherError ''timeout''))
      \<and> fst (async_setup_entry K w hass) = Inr True
      \<and> map_option remote (runtime_data (config_entry (snd (async_setup_entry K w hass)))) = Some a
      \<and> fst (async_setup_entry K (w\<lparr>init_websocket := Some ConnectionError\<rparr>) hass)
        = Inl ConnectionError"
  (is "let K = ?K; a = ?a; w = ?W a; hass = ?hass in _")
proof -
  let ?w = "?W ?a"
  let ?w1 = "?w\<lparr>validate_connection := Some AuthenticationError\<rparr>"
  let ?w2 = "?w\<lparr>get_remote_information := Some ConnectionError\<rparr>"
  let ?w3 = "?w\<lparr>validate_connection := Some (OtherError ''timeout'')\<rparr>"
  let ?w4 = "?w\<lparr>init_websocket := Some ConnectionError\<rparr>"
  have c1: "try_connect ?w1 (config_entry ?hass) = Inl AuthenticationError"
    by (simp add: try_connect_def)
  have c2: "try_connect ?w2 (config_entry ?hass) = Inl ConnectionError"
    by (simp add: try_connect_def)
  have c3: "try_connect ?w3 (config_entry ?hass) = Inl (OtherError ''timeout'')"
    by (simp add: try_connect_def)
  from async_setup_entry_outcomes [of ?w1 ?hass ?K, THEN conjunct1, rule_format, OF c1]
  have 1: "fst (async_setup_entry ?K ?w1 ?hass) = Inl (ConfigEntryAuthFailed AuthenticationError)"
    by simp
  from async_setup_entry_outcomes [of ?w2 ?hass ?K, THEN conjunct1, rule_format, OF c2]
  have 2: "fst (async_setup_entry ?K ?w2 ?hass) = Inl (ConfigEntryNotReady ConnectionError)"
    by simp
  from async_setup_entry_outcomes [of ?w3 ?hass ?K, THEN conjunct1, rule_format, OF c3]
  have 3: "fst (async_setup_entry ?K ?w3 ?hass) = Inl (ConfigEntryNotReady (OtherError ''timeout''))"
    by simp
  have c: "try_connect ?w (config_entry ?hass) = Inr ?a"
    and c4: "try_connect ?w4 (config_entry ?hass) = Inr ?a"
    by (simp_all add: try_connect_def)
  have m: "migrate_v1 ?K ?a ?hass = (None, ?hass)" by (simp add: migrate_v1_def)
  have s: "synchronize_docks ?a ?hass = (None, ?hass)"
    by (simp add: synchronize_docks_def sync_docks_def)
  have d: "setup_docks ?K ?w (docks ?a) ([], ?hass) = (Inr [], ?hass)"
    and d4: "setup_docks ?K ?w4 (docks ?a) ([], ?hass) = (Inr [], ?hass)" by simp_all
  note later = async_setup_entry_outcomes [of ?w ?hass ?K, THEN conjunct2, THEN conjunct2,
      THEN conjunct1, THEN spec, THEN mp, OF c]
  note later4 = async_setup_entry_outcomes [of ?w4 ?hass ?K, THEN conjunct2, THEN conjunct2,
      THEN conjunct1, THEN spec, THEN mp, OF c4]
  from m s d later have 4: "fst (async_setup_entry ?K ?w ?hass) = Inr True"
    by simp
  then obtain hass' where r: "async_setup_entry ?K ?w ?hass = (Inr True, hass')"
    by (cases "async_setup_entry ?K ?w ?hass") simp
  from async_setup_entry_outcomes [of ?w ?hass ?K, THEN conjunct2, THEN conjunct1, rule_format, OF r]
  have "\<exists>stored. runtime_data (config_entry hass') =
      Some \<lparr>coordinator = UnfoldedCircleRemoteCoordinator ?a, remote = ?a,
            dock_coordinators = map UnfoldedCircleDockCoordinator
              (filter (\<lambda>d. has_password d \<and> dock_api_update ?w d = None \<and> dock_first_refresh ?w d = None)
                 (map (assign_password stored) []))\<rparr>"
    by auto
  with r have 5: "map_option remote (runtime_data (config_entry (snd (async_setup_entry ?K ?w ?hass))))
      = Some ?a" by auto
  from m s d4 later4
  have "fst (async_setup_entry ?K ?w4 ?hass) = Inl (coroutine_raises ConnectionError)"
    by simp
  then have 6: "fst (async_setup_entry ?K ?w4 ?hass) = Inl ConnectionError"
    by (simp add: coroutine_raises_def)
  show ?thesis unfolding Let_def
    by (rule conjI [OF 1 conjI [OF 2 conjI [OF 3 conjI [OF 4 conjI [OF 5 6]]]]])
qed

text \<open>\<open>coordinator.api.init()\<close> is outside the \<open>try\<close>: its \<open>ConnectionError\<close>
  leaves setup as it is, not as \<open>ConfigEntryNotReady\<close>.\<close>

theorem async_setup_entry_api_init_counterexample:
  "fst (async_setup_entry
      \<lparr>DOMAIN = ''unfoldedcircle'', UNFOLDED_CIRCLE_COORDINATOR = ''coordinator'',
       UC_HA_SYSTEM = ''hass'', UC_HA_TOKEN_ID = ''ws-ha-api''\<rparr>
      \<lparr>validate_connection = None, get_remote_information = None,
       api = \<lparr>name = ''Remote Two'', model_number = ''UCR2'', serial_number = ''SN1'',
              docks = [],
              external_entity_configuration_available = False, update_in_progress = False,
              update_percent = 0, sw_version = ''1.0'', latest_sw_version = ''1.0'',
              automatic_updates = False, release_notes = ''''\<rparr>,
       coordinator_init = None, api_init = Some ConnectionError,
       dock_coordinator_init = map_of [],
       dock_api_update = map_of [], dock_first_refresh = map_of [],
       first_refresh = None, get_registered_websocket_url = Inr True,
       async_forward_entry_setups = None, zeroconf_instance = None, init_websocket = None,
       close_websocket = None, async_delete_issue = map_of [],
       async_unload_platforms = Inr True, delete_token_for_external_system = Inr ''ok''\<rparr>
      \<lparr>config_entry = \<lparr>entry_id = ''e1'', version = 2, title = ''Remote Two'',
         data_host = Some ''10.0.0.2'', data_pin = Some ''1234'', data_apiKey = Some ''key'',
         data_docks = Some [], runtime_data = None\<rparr>,
       entity_registry = [], device_registry = [],
       issue_registry = map_of [], logger = [], data = map_of []\<rparr>)
   = Inl ConnectionError"
  by code_simp

text \<open>A device without identifiers: \<open>next(iter(device.identifiers))\<close> raises
  \<open>StopIteration\<close>, which leaves the coroutine as \<open>RuntimeError\<close>. A dock whose stored
  password is \<open>secret\<close>: the device client of the runtime data carries it.\<close>

lemma async_setup_entry_examples:
  "let K = \<lparr>DOMAIN = ''unfoldedcircle'', UNFOLDED_CIRCLE_COORDINATOR = ''coordinator'',
            UC_HA_SYSTEM = ''hass'', UC_HA_TOKEN_ID = ''ws-ha-api''\<rparr>;
       dA = \<lparr>name = ''Dock A'', model_number = ''UCD2'', serial_number = ''SA'',
             dock_id = ''A'', dock_endpoint = ''ws://a'', dock_password = ''''\<rparr>;
       a = \<lparr>name = ''Remote Two'', model_number = ''UCR2'', serial_number = ''SN1'', docks = [dA],
            external_entity_configuration_available = False, update_in_progress = False,
            update_percent = 0, sw_version = ''1.0'', latest_sw_version = ''1.0'',
            automatic_updates = False, release_notes = ''''\<rparr>;
       w = \<lparr>validate_connection = None, get_remote_information = None, api = a,
            coordinator_init = None, api_init = None,
            dock_coordinator_init = map_of [], dock_api_update = map_of [],
            dock_first_refresh = map_of [],
            first_refresh = None, get_registered_websocket_url = Inr True,
            async_forward_entry_setups = None, zeroconf_instance = None, init_websocket = None,
            close_websocket = None, async_delete_issue = map_of [],
            async_unload_platforms = Inr True, delete_token_for_external_system = Inr ''ok''\<rparr>;
       hass = \<lparr>config_entry = \<lparr>entry_id = ''e1'', version = 1, title = ''Remote Two'',
                 data_host = Some ''10.0.0.2'', data_pin = Some ''1234'', data_apiKey = Some ''key'',
                 data_docks = Some [\<lparr>cd_id = ''A'', cd_name = ''Dock A'', cd_password = ''secret''\<rparr>],
                 runtime_data = None\<rparr>,
               entity_registry = [],
               device_registry = [\<lparr>device_id = ''d1'', identifiers = []\<rparr>],
               issue_registry = map_of [], logger = [], data = map_of []\<rparr>
   in fst (async_setup_entry K w hass) = Inl (RuntimeError ''coroutine raised StopIteration'')
      \<and> map_option (\<lambda>rd. map dock_password (docks (remote rd)))
           (runtime_data (config_entry (snd (async_setup_entry K w
              (hass\<lparr>device_registry := []\<rparr>))))) = Some [''secret'']"
  by code_simp


section \<open>Properties of unload and removal\<close>

lemma async_unload_entry_result: "fst (async_unload_entry K w hass) = async_unload_platforms w"
  by (simp add: async_unload_entry_def Let_def split: sum.splits)

lemma async_unload_entry_logs:
  "fst (unload_try K w hass) = Some ex \<Longrightarrow>
   logger (snd (async_unload_entry K w hass)) = logger (snd (unload_try K w hass)) @ [UnloadError ex]"
  by (cases "unload_try K w hass") (simp add: async_unload_entry_def Let_def split: sum.splits)

lemma delete_dock_issues_logger:
  "logger (snd (delete_dock_issues K w ds hass)) = logger hass"
  by (induction ds arbitrary: hass) (auto split: option.splits)

lemma unload_try_logger: "logger (snd (unload_try K w hass)) = logger hass"
  by (simp add: unload_try_def delete_dock_issues_logger split: option.splits Coordinator.splits)

lemma unload_try_close_websocket:
  "runtime_data (config_entry hass) = Some rd \<Longrightarrow> close_websocket w = Some ex \<Longrightarrow>
   fst (unload_try K w hass) = Some ex"
  by (simp add: unload_try_def)

lemma delete_dock_issues_raises:
  "d \<in> set ds \<Longrightarrow> async_delete_issue w (''dock_password_'' @ dock_id d) = Some ex \<Longrightarrow>
   \<exists>ex'. fst (delete_dock_issues K w ds hass) = Some ex'"
  by (induction ds arbitrary: hass) (auto split: option.splits)

lemma async_remove_entry_result: "fst (async_remove_entry K w hass) = Inr ()"
  by (simp add: async_remove_entry_def split: prod.splits option.splits)

lemma async_remove_entry_logs:
  "fst (remove_try K w hass) = Some ex \<Longrightarrow>
   logger (snd (async_remove_entry K w hass)) = logger (snd (remove_try K w hass)) @ [RemoveError ex]"
  by (cases "remove_try K w hass") (simp add: async_remove_entry_def)

lemma remove_try_error:
  "data_host (config_entry hass) = Some h \<Longrightarrow> data_pin (config_entry hass) = Some p \<Longrightarrow>
   data_apiKey (config_entry hass) = Some k \<Longrightarrow>
   delete_token_for_external_system w = Inl e \<Longrightarrow>
   remove_try K w hass =
     (if e = ConnectionError
      then (None, hass\<lparr>logger := logger hass @ [RemoveDebug, RemoteUnavailable]\<rparr>)
      else (Some e, hass\<lparr>logger := logger hass @ [RemoveDebug]\<rparr>))"
  by (simp add: remove_try_def Let_def)


text \<open>
  C9 (as the code has it). Removal never raises: an exception of the token deletion is
  logged, a \<open>ConnectionError\<close> as "remote is unavailable" and any other by the outer
  handler. Unload logs an exception raised while closing the websocket or while
  deleting a dock password issue and goes on to unload the platforms; what unload
  returns, or raises, is what unloading the platforms returns or raises.
\<close>

theorem unload_and_remove_error_handling:
  "fst (async_remove_entry K w hass) = Inr ()
   \<and> (\<forall>h p k e. data_host (config_entry hass) = Some h \<and> data_pin (config_entry hass) = Some p
          \<and> data_apiKey (config_entry hass) = Some k
          \<and> delete_token_for_external_system w = Inl e \<longrightarrow>
        (if e = ConnectionError then RemoteUnavailable else RemoveError e)
          \<in> set (logger (snd (async_remove_entry K w hass))))
   \<and> fst (async_unload_entry K w hass) = async_unload_platforms w
   \<and> (\<forall>rd ex. runtime_data (config_entry hass) = Some rd \<and> close_websocket w = Some ex \<longrightarrow>
        UnloadError ex \<in> set (logger (snd (async_unload_entry K w hass))))
   \<and> (\<forall>rd a d ex. runtime_data (config_entry hass) = Some rd \<and> close_websocket w = None
          \<and> coordinator rd = UnfoldedCircleRemoteCoordinator a \<and> d \<in> set (docks a)
          \<and> async_delete_issue w (''dock_password_'' @ dock_id d) = Some ex \<longrightarrow>
        (\<exists>ex'. UnloadError ex' \<in> set (logger (snd (async_unload_entry K w hass)))))"
proof (intro conjI allI impI)
  show "fst (async_remove_entry K w hass) = Inr ()" by (rule async_remove_entry_result)
next
  fix h p k e
  assume "data_host (config_entry hass) = Some h \<and> data_pin (config_entry hass) = Some p
          \<and> data_apiKey (config_entry hass) = Some k
          \<and> delete_token_for_external_system w = Inl e"
  then have "data_host (config_entry hass) = Some h" "data_pin (config_entry hass) = Some p"
    "data_apiKey (config_entry hass) = Some k" "delete_token_for_external_system w = Inl e"
    by simp_all
  then have r: "remove_try K w hass =
     (if e = ConnectionError
      then (None, hass\<lparr>logger := logger hass @ [RemoveDebug, RemoteUnavailable]\<rparr>)
      else (Some e, hass\<lparr>logger := logger hass @ [RemoveDebug]\<rparr>))"
    by (rule remove_try_error)
  show "(if e = ConnectionError then RemoteUnavailable else RemoveError e)
          \<in> set (logger (snd (async_remove_entry K w hass)))"
    by (simp add: async_remove_entry_def r)
next
  show "fst (async_unload_entry K w hass) = async_unload_platforms w"
    by (rule async_unload_entry_result)
next
  fix rd ex
  assume "runtime_data (config_entry hass) = Some rd \<and> close_websocket w = Some ex"
  then have "fst (unload_try K w hass) = Some ex"
    by (auto intro: unload_try_close_websocket)
  from async_unload_entry_logs [OF this]
  show "UnloadError ex \<in> set (logger (snd (async_unload_entry K w hass)))" by simp
next
  fix rd a d ex
  assume "runtime_data (config_entry hass) = Some rd \<and> close_websocket w = None
          \<and> coordinator rd = UnfoldedCircleRemoteCoordinator a \<and> d \<in> set (docks a)
          \<and> async_delete_issue w (''dock_password_'' @ dock_id d) = Some ex"
  then have rd: "runtime_data (config_entry hass) = Some rd" and cw: "close_websocket w = None"
    and co: "coordinator rd = UnfoldedCircleRemoteCoordinator a" and mem: "d \<in> set (docks a)"
    and di: "async_delete_issue w (''dock_password_'' @ dock_id d) = Some ex" by simp_all
  from delete_dock_issues_raises [OF mem di, of K hass]
  obtain ex' where "fst (delete_dock_issues K w (docks a) hass) = Some ex'" ..
  with rd cw co have "fst (unload_try K w hass) = Some ex'"
    by (simp add: unload_try_def)
  from async_unload_entry_logs [OF this]
  have "UnloadError ex' \<in> set (logger (snd (async_unload_entry K w hass)))" by simp
  then show "\<exists>ex'. UnloadError ex' \<in> set (logger (snd (async_unload_entry K w hass)))" ..
qed

text \<open>A device that cannot be reached: the token deletion and the closing of the
  websocket raise \<open>ConnectionError\<close>; and a host that fails to delete an issue.\<close>

theorem unload_and_remove_error_handling_witness:
  "let K = \<lparr>DOMAIN = ''unfoldedcircle'', UNFOLDED_CIRCLE_COORDINATOR = ''coordinator'',
            UC_HA_SYSTEM = ''hass'', UC_HA_TOKEN_ID = ''ws-ha-api''\<rparr>;
       dA = \<lparr>name = ''Dock A'', model_number = ''UCD2'', serial_number = ''SA'',
             dock_id = ''A'', dock_endpoint = ''ws://a'', dock_password = ''''\<rparr>;
       a = \<lparr>name = ''Remote Two'', model_number = ''UCR2'', serial_number = ''SN1'', docks = [dA],
            external_entity_configuration_available = False, update_in_progress = False,
            update_percent = 0, sw_version = ''1.0'', latest_sw_version = ''1.0'',
            automatic_updates = False, release_notes = ''''\<rparr>;
       w = \<lparr>validate_connection = None, get_remote_information = None, api = a,
            coordinator_init = None, api_init = None,
            dock_coordinator_init = map_of [], dock_api_update = map_of [],
            dock_first_refresh = map_of [],
            first_refresh = None, get_registered_websocket_url = Inr True,
            async_forward_entry_setups = None, zeroconf_instance = None, init_websocket = None,
            close_websocket = Some ConnectionError, async_delete_issue = map_of [],
            async_unload_platforms = Inr True,
            delete_token_for_external_system = Inl ConnectionError\<rparr>;
       rd = \<lparr>coordinator = UnfoldedCircleRemoteCoordinator a, remote = a, dock_coordinators = []\<rparr>;
       hass = \<lparr>config_entry = \<lparr>entry_id = ''e1'', version = 2, title = ''Remote Two'',
                 data_host = Some ''10.0.0.2'', data_pin = Some ''1234'', data_apiKey = Some ''key'',
                 data_docks = Some [], runtime_data = Some rd\<rparr>,
               entity_registry = [], device_registry = [],
               issue_registry = map_of [], logger = [], data = map_of []\<rparr>
   in fst (async_remove_entry K w hass) = Inr ()
      \<and> RemoteUnavailable \<in> set (logger (snd (async_remove_entry K w hass)))
      \<and> fst (async_unload_entry K w hass) = Inr True
      \<and> UnloadError ConnectionError \<in> set (logger (snd (async_unload_entry K w hass)))
      \<and> UnloadError (OtherError ''issue'') \<in> set (logger (snd (async_unload_entry K
            (w\<lparr>close_websocket := None,
               async_delete_issue := map_of [(''dock_password_A'', OtherError ''issue'')]\<rparr>) hass)))"
  (is "let K = ?K; dA = ?dA; a = ?A dA; w = ?W a; rd = ?R a; hass = ?H rd in _")
proof -
  let ?a = "?A ?dA"
  let ?w = "?W ?a"
  let ?rd = "?R ?a"
  let ?hass = "?H ?rd"
  let ?w2 = "?w\<lparr>close_websocket := None,
               async_delete_issue := map_of [(''dock_password_A'', OtherError ''issue'')]\<rparr>"
  note t = unload_and_remove_error_handling [of ?K ?w ?hass]
  note t2 = unload_and_remove_error_handling [of ?K ?w2 ?hass]
  from t have 1: "fst (async_remove_entry ?K ?w ?hass) = Inr ()" by (rule conjunct1)
  have p2: "data_host (config_entry ?hass) = Some ''10.0.0.2'' \<and> data_pin (config_entry ?hass) = Some ''1234''
          \<and> data_apiKey (config_entry ?hass) = Some ''key''
          \<and> delete_token_for_external_system ?w = Inl ConnectionError" by simp
  from t [THEN conjunct2, THEN conjunct1, rule_format, OF p2]
  have 2: "RemoteUnavailable \<in> set (logger (snd (async_remove_entry ?K ?w ?hass)))" by simp
  from t [THEN conjunct2, THEN conjunct2, THEN conjunct1]
  have 3: "fst (async_unload_entry ?K ?w ?hass) = Inr True" by simp
  have p4: "runtime_data (config_entry ?hass) = Some ?rd \<and> close_websocket ?w = Some ConnectionError"
    by simp
  from t [THEN conjunct2, THEN conjunct2, THEN conjunct2, THEN conjunct1, rule_format, OF p4]
  have 4: "UnloadError ConnectionError \<in> set (logger (snd (async_unload_entry ?K ?w ?hass)))" .
  have p5: "runtime_data (config_entry ?hass) = Some ?rd \<and> close_websocket ?w2 = None
          \<and> coordinator ?rd = UnfoldedCircleRemoteCoordinator ?a \<and> ?dA \<in> set (docks ?a)
          \<and> async_delete_issue ?w2 (''dock_password_'' @ dock_id ?dA) = Some (OtherError ''issue'')"
    by simp
  from t2 [THEN conjunct2, THEN conjunct2, THEN conjunct2, THEN conjunct2, rule_format, OF p5]
  obtain ex' where e: "UnloadError ex' \<in> set (logger (snd (async_unload_entry ?K ?w2 ?hass)))" ..
  have "logger (snd (async_unload_entry ?K ?w2 ?hass)) = [UnloadError (OtherError ''issue'')]"
    by code_simp
  with e have 5: "UnloadError (OtherError ''issue'') \<in> set (logger (snd (async_unload_entry ?K ?w2 ?hass)))"
    by simp
  show ?thesis unfolding Let_def
    by (rule conjI [OF 1 conjI [OF 2 conjI [OF 3 conjI [OF 4 5]]]])
qed

text \<open>\<open>async_unload_platforms\<close> is called after the \<open>try\<close>: its exception leaves
  \<open>async_unload_entry\<close>.\<close>

theorem async_unload_platforms_counterexample:
  "fst (async_unload_entry
      \<lparr>DOMAIN = ''unfoldedcircle'', UNFOLDED_CIRCLE_COORDINATOR = ''coordinator'',
       UC_HA_SYSTEM = ''hass'', UC_HA_TOKEN_ID = ''ws-ha-api''\<rparr>
      \<lparr>validate_connection = None, get_remote_information = None,
       api = \<lparr>name = ''Remote Two'', model_number = ''UCR2'', serial_number = ''SN1'',
              docks = [],
              external_entity_configuration_available = False, update_in_progress = False,
              update_percent = 0, sw_version = ''1.0'', latest_sw_version = ''1.0'',
              automatic_updates = False, release_notes = ''''\<rparr>,
       coordinator_init = None, api_init = None,
       dock_coordinator_init = map_of [],
       dock_api_update = map_of [], dock_first_refresh = map_of [],
       first_refresh = None, get_registered_websocket_url = Inr True,
       async_forward_entry_setups = None, zeroconf_instance = None, init_websocket = None,
       close_websocket = None, async_delete_issue = map_of [],
       async_unload_platforms = Inl (OtherError ''platform''),
       delete_token_for_external_system = Inr ''ok''\<rparr>
      \<lparr>config_entry = \<lparr>entry_id = ''e1'', version = 2, title = ''Remote Two'',
         data_host = Some ''10.0.0.2'', data_pin = Some ''1234'', data_apiKey = Some ''key'',
         data_docks = Some [],
         runtime_data = Some \<lparr>coordinator = UnfoldedCircleRemoteCoordinator
             \<lparr>name = ''Remote Two'', model_number = ''UCR2'', serial_number = ''SN1'',
              docks = [],
              external_entity_configuration_available = False, update_in_progress = False,
              update_percent = 0, sw_version = ''1.0'', latest_sw_version = ''1.0'',
              automatic_updates = False, release_notes = ''''\<rparr>,
           remote = \<lparr>name = ''Remote Two'', model_number = ''UCR2'', serial_number = ''SN1'',
              docks = [],
              external_entity_configuration_available = False, update_in_progress = False,
              update_percent = 0, sw_version = ''1.0'', latest_sw_version = ''1.0'',
              automatic_updates = False, release_notes = ''''\<rparr>,
           dock_coordinators = []\<rparr>\<rparr>,
       entity_registry = [], device_registry = [],
       issue_registry = map_of [], logger = [], data = map_of []\<rparr>)
   = Inl (OtherError ''platform'')"
  by code_simp


section \<open>Properties of the entities\<close>

text \<open>
  C7. On a coordinator update of the firmware update entity: while an update is in
  progress the indicator becomes the string \<open>"0"\<close> when the percentage is 0 and the
  percentage itself otherwise; when no update is in progress the indicator becomes the
  Boolean \<open>False\<close> and the installed and latest version are taken from the device
  client. In every case the state is written once.
\<close>

theorem handle_coordinator_update_in_progress:
  "(update_in_progress a \<and> update_percent a = 0 \<longrightarrow>
      attr_in_progress (handle_coordinator_update a self) = PyStr ''0'')
   \<and> (update_in_progress a \<and> update_percent a \<noteq> 0 \<longrightarrow>
      attr_in_progress (handle_coordinator_update a self) = PyInt (update_percent a))
   \<and> (\<not> update_in_progress a \<longrightarrow>
      attr_in_progress (handle_coordinator_update a self) = PyBool False
      \<and> attr_installed_version (handle_coordinator_update a self) = sw_version a
      \<and> attr_latest_version (handle_coordinator_update a self) = latest_sw_version a)
   \<and> state_writes (handle_coordinator_update a self) = state_writes self + 1"
  by (simp add: handle_coordinator_update_def Let_def)

text \<open>An update at 0 percent, at 40 percent, and finished.\<close>

theorem handle_coordinator_update_in_progress_witness:
  "let a = \<lparr>name = ''Remote Two'', model_number = ''UCR2'', serial_number = ''SN1'', docks = [],
            external_entity_configuration_available = False, update_in_progress = True,
            update_percent = 0, sw_version = ''1.0'', latest_sw_version = ''1.1'',
            automatic_updates = False, release_notes = ''''\<rparr>;
       self = Update_init a
   in attr_in_progress (handle_coordinator_update a self) = PyStr ''0''
      \<and> attr_in_progress (handle_coordinator_update (a\<lparr>update_percent := 40\<rparr>) self) = PyInt 40
      \<and> attr_in_progress (handle_coordinator_update
           (a\<lparr>update_in_progress := False, sw_version := ''1.1''\<rparr>) self) = PyBool False
      \<and> attr_installed_version (handle_coordinator_update
           (a\<lparr>update_in_progress := False, sw_version := ''1.1''\<rparr>) self) = ''1.1''
      \<and> attr_latest_version (handle_coordinator_update
           (a\<lparr>update_in_progress := False, sw_version := ''1.1''\<rparr>) self) = ''1.1''"
  (is "let a = ?a; self = ?S a in _")
proof -
  let ?self = "?S ?a"
  let ?a2 = "?a\<lparr>update_percent := 40\<rparr>"
  let ?a3 = "?a\<lparr>update_in_progress := False, sw_version := ''1.1''\<rparr>"
  have h1: "update_in_progress ?a \<and> update_percent ?a = 0" by simp
  have h2: "update_in_progress ?a2 \<and> update_percent ?a2 \<noteq> 0" by simp
  have h3: "\<not> update_in_progress ?a3" by simp
  from handle_coordinator_update_in_progress [of ?a ?self, THEN conjunct1, rule_format, OF h1]
  have 1: "attr_in_progress (handle_coordinator_update ?a ?self) = PyStr ''0''" .
  from handle_coordinator_update_in_progress [of ?a2 ?self, THEN conjunct2, THEN conjunct1,
      rule_format, OF h2]
  have 2: "attr_in_progress (handle_coordinator_update ?a2 ?self) = PyInt 40" by simp
  from handle_coordinator_update_in_progress [of ?a3 ?self, THEN conjunct2, THEN conjunct2,
      THEN conjunct1, rule_format, OF h3]
  have 3: "attr_in_progress (handle_coordinator_update ?a3 ?self) = PyBool False
      \<and> attr_installed_version (handle_coordinator_update ?a3 ?self) = ''1.1''
      \<and> attr_latest_version (handle_coordinator_update ?a3 ?self) = ''1.1''"
    by (simp del: One_nat_def)
  show ?thesis unfolding Let_def
    by (rule conjI [OF 1 conjI [OF 2 3]])
qed


text \<open>
  C8 (as the code has it). Setting a number entity, of a remote or of a dock, to a
  value \<open>V\<close> for which \<open>int(V)\<close> is defined, which is every finite \<open>V\<close>, truncated
  towards zero, calls the control function declared in its description exactly once,
  with the entity's coordinator and \<open>int(V)\<close>. When the device client call made by the
  control function returns, the events are exactly: the control function, its client
  call, one refresh request to the entity's coordinator. When that call raises, the
  exception leaves the set operation and no refresh is requested. For \<open>nan\<close> and the
  infinities \<open>int(V)\<close> raises and nothing is called. The set operation returns only
  when both the client call and the refresh request have returned.
\<close>

theorem async_set_native_value_calls:
  "(\<forall>i. py_int v = Inr i \<longrightarrow>
      filter (\<lambda>ev. case ev of ControlFnCalled f c i \<Rightarrow> True | _ \<Rightarrow> False)
          (snd (async_set_native_value w self v))
        = [ControlFnCalled (control_fn (entity_description self)) (entity_coordinator self) i]
      \<and> (api_call w (entity_coordinator self,
             control_fn_body (control_fn (entity_description self)) i) = None \<longrightarrow>
           snd (async_set_native_value w self v)
             = [ControlFnCalled (control_fn (entity_description self)) (entity_coordinator self) i,
                ApiCalled (entity_coordinator self)
                  (control_fn_body (control_fn (entity_description self)) i),
                RefreshRequested (entity_coordinator self)])
      \<and> (\<forall>e. api_call w (entity_coordinator self,
             control_fn_body (control_fn (entity_description self)) i) = Some e \<longrightarrow>
           async_set_native_value w self v
             = (Some e,
                [ControlFnCalled (control_fn (entity_description self)) (entity_coordinator self) i,
                 ApiCalled (entity_coordinator self)
                   (control_fn_body (control_fn (entity_description self)) i)])))
   \<and> (\<forall>e. py_int v = Inl e \<longrightarrow> async_set_native_value w self v = (Some e, []))
   \<and> (fst (async_set_native_value w self v) = None \<longrightarrow>
        (\<exists>i. py_int v = Inr i
           \<and> api_call w (entity_coordinator self,
                control_fn_body (control_fn (entity_description self)) i) = None)
        \<and> async_request_refresh w (entity_coordinator self) = None)
   \<and> (\<forall>x. v = Finite x \<longrightarrow> py_int v = Inr (if 0 \<le> x then \<lfloor>x\<rfloor> else \<lceil>x\<rceil>))"
  by (cases "py_int v") (auto simp: async_set_native_value_def Let_def split: option.splits)

text \<open>The display brightness of a remote set to 42.7, the LED brightness of a dock
  set to 80, and a value that is not a number.\<close>

theorem async_set_native_value_calls_witness:
  "let a = \<lparr>name = ''Remote Two'', model_number = ''UCR2'', serial_number = ''SN1'', docks = [],
            external_entity_configuration_available = False, update_in_progress = False,
            update_percent = 0, sw_version = ''1.0'', latest_sw_version = ''1.0'',
            automatic_updates = False, release_notes = ''''\<rparr>;
       c = UnfoldedCircleRemoteCoordinator a;
       d = UnfoldedCircleDockCoordinator
             \<lparr>name = ''Dock A'', model_number = ''UCD2'', serial_number = ''SA'',
              dock_id = ''A'', dock_endpoint = ''ws://a'', dock_password = ''secret''\<rparr>;
       w = \<lparr>api_call = map_of [], async_request_refresh = map_of []\<rparr>;
       remote_number = UCRemoteNumber c (map_of []) (hd UNFOLDED_CIRCLE_NUMBER);
       dock_number = UCDockNumber d (map_of []) (hd UNFOLDED_CIRCLE_DOCK_NUMBER)
   in async_set_native_value w remote_number (Finite 42.7)
        = (None, [ControlFnCalled update_remote_display_settings c 42,
                  ApiCalled c (patch_remote_display_settings ''brightness'' 42),
                  RefreshRequested c])
      \<and> async_set_native_value w dock_number (Finite 80)
        = (None, [ControlFnCalled update_dock_led_brightness d 80,
                  ApiCalled d (send_command ''SET_LED_BRIGHTNESS'' ''80''),
                  RefreshRequested d])
      \<and> async_set_native_value w remote_number NaN
        = (Some (ValueError ''cannot convert float NaN to integer''), [])"
  (is "let a = ?a; c = ?C a; d = ?d; w = ?w; remote_number = ?R c; dock_number = ?D d in _")
proof -
  let ?c = "?C ?a"
  let ?r = "?R ?c"
  let ?dn = "?D ?d"
  have i1: "py_int (Finite 42.7) = Inr 42" and i2: "py_int (Finite 80) = Inr 80" by simp_all
  have i3: "py_int NaN = Inl (ValueError ''cannot convert float NaN to integer'')" by simp
  have f1: "control_fn (entity_description ?r) = update_remote_display_settings"
    and f2: "control_fn (entity_description ?dn) = update_dock_led_brightness"
    and c1: "entity_coordinator ?r = ?c" and c2: "entity_coordinator ?dn = ?d"
    by (simp_all add: UCRemoteNumber_def UCDockNumber_def UNFOLDED_CIRCLE_NUMBER_def
        UNFOLDED_CIRCLE_DOCK_NUMBER_def number_description_def)
  have s: "str_int 80 = ''80''" by code_simp
  have ok1: "api_call ?w (entity_coordinator ?r,
      control_fn_body (control_fn (entity_description ?r)) 42) = None" by simp
  have ok2: "api_call ?w (entity_coordinator ?dn,
      control_fn_body (control_fn (entity_description ?dn)) 80) = None" by simp
  have r1: "fst (async_set_native_value ?w ?r (Finite 42.7)) = None"
    and r2: "fst (async_set_native_value ?w ?dn (Finite 80)) = None"
    by (simp_all add: async_set_native_value_def Let_def)
  note t1 = async_set_native_value_calls [of "Finite 42.7" ?w ?r, THEN conjunct1, rule_format, OF i1]
  note t2 = async_set_native_value_calls [of "Finite 80" ?w ?dn, THEN conjunct1, rule_format, OF i2]
  from t1 [THEN conjunct2, THEN conjunct1, THEN mp, OF ok1]
  have e1: "snd (async_set_native_value ?w ?r (Finite 42.7))
      = [ControlFnCalled update_remote_display_settings ?c 42,
         ApiCalled ?c (patch_remote_display_settings ''brightness'' 42),
         RefreshRequested ?c]"
    unfolding f1 c1 by simp
  from t2 [THEN conjunct2, THEN conjunct1, THEN mp, OF ok2]
  have e2: "snd (async_set_native_value ?w ?dn (Finite 80))
      = [ControlFnCalled update_dock_led_brightness ?d 80,
         ApiCalled ?d (send_command ''SET_LED_BRIGHTNESS'' ''80''),
         RefreshRequested ?d]"
    unfolding f2 c2 by (simp add: s)
  from r1 e1 have 1: "async_set_native_value ?w ?r (Finite 42.7)
        = (None, [ControlFnCalled update_remote_display_settings ?c 42,
                  ApiCalled ?c (patch_remote_display_settings ''brightness'' 42),
                  RefreshRequested ?c])"
    by (simp only: prod_eq_iff fst_conv snd_conv simp_thms)
  from r2 e2 have 2: "async_set_native_value ?w ?dn (Finite 80)
        = (None, [ControlFnCalled update_dock_led_brightness ?d 80,
                  ApiCalled ?d (send_command ''SET_LED_BRIGHTNESS'' ''80''),
                  RefreshRequested ?d])"
    by (simp only: prod_eq_iff fst_conv snd_conv simp_thms)
  from async_set_native_value_calls [of NaN ?w ?r, THEN conjunct2, THEN conjunct1, rule_format, OF i3]
  have 3: "async_set_native_value ?w ?r NaN
        = (Some (ValueError ''cannot convert float NaN to integer''), [])" .
  show ?thesis unfolding Let_def by (rule conjI [OF 1 conjI [OF 2 3]])
qed

text \<open>The device does not answer: the control function raises \<open>ConnectionError\<close> and
  no refresh is requested.\<close>

theorem async_set_native_value_no_refresh_counterexample:
  "async_set_native_value
      \<lparr>api_call = map_of
         [((UnfoldedCircleRemoteCoordinator
             \<lparr>name = ''Remote Two'', model_number = ''UCR2'', serial_number = ''SN1'', docks = [],
              external_entity_configuration_available = False, update_in_progress = False,
              update_percent = 0, sw_version = ''1.0'', latest_sw_version = ''1.0'',
              automatic_updates = False, release_notes = ''''\<rparr>,
            patch_remote_display_settings ''brightness'' 42), ConnectionError)],
       async_request_refresh = map_of []\<rparr>
      (UCRemoteNumber (UnfoldedCircleRemoteCoordinator
             \<lparr>name = ''Remote Two'', model_number = ''UCR2'', serial_number = ''SN1'', docks = [],
              external_entity_configuration_available = False, update_in_progress = False,
              update_percent = 0, sw_version = ''1.0'', latest_sw_version = ''1.0'',
              automatic_updates = False, release_notes = ''''\<rparr>)
         (map_of []) (hd UNFOLDED_CIRCLE_NUMBER))
      (Finite 42)
   = (Some ConnectionError,
      [ControlFnCalled update_remote_display_settings (UnfoldedCircleRemoteCoordinator
             \<lparr>name = ''Remote Two'', model_number = ''UCR2'', serial_number = ''SN1'', docks = [],
              external_entity_configuration_available = False, update_in_progress = False,
              update_percent = 0, sw_version = ''1.0'', latest_sw_version = ''1.0'',
              automatic_updates = False, release_notes = ''''\<rparr>) 42,
       ApiCalled (UnfoldedCircleRemoteCoordinator
             \<lparr>name = ''Remote Two'', model_number = ''UCR2'', serial_number = ''SN1'', docks = [],
              external_entity_configuration_available = False, update_in_progress = False,
              update_percent = 0, sw_version = ''1.0'', latest_sw_version = ''1.0'',
              automatic_updates = False, release_notes = ''''\<rparr>)
         (patch_remote_display_settings ''brightness'' 42)])"
  by (simp add: async_set_native_value_def Let_def UCRemoteNumber_def UNFOLDED_CIRCLE_NUMBER_def
      number_description_def)


lemma UCRemoteNumber_unique_id:
  "attr_unique_id (UCRemoteNumber c cd description) =
     api_model_number c @ ''_'' @ api_serial_number c @ ''_'' @ description_unique_id description"
  by (simp add: UCRemoteNumber_def)

lemma UCDockNumber_unique_id:
  "attr_unique_id (UCDockNumber c cd description) =
     api_model_number c @ ''_'' @ api_serial_number c @ ''_'' @ description_unique_id description"
  by (simp add: UCDockNumber_def)

lemma Update_unique_id: "attr_unique_id (Update_init a) = name a @ ''_update_status''"
  by (simp add: Update_init_def)

lemma number_async_setup_entry_unique_ids:
  "number_async_setup_entry cd hass = Inr entities \<Longrightarrow> e \<in> set entities \<Longrightarrow>
   attr_unique_id e = api_model_number (entity_coordinator e) @ ''_''
      @ api_serial_number (entity_coordinator e) @ ''_''
      @ description_unique_id (entity_description e)"
  by (auto simp: number_async_setup_entry_def UCRemoteNumber_def UCDockNumber_def
      split: option.splits)

text \<open>
  C4. The number entities have the unique id
  \<open>{model_number}_{serial_number}_{description.unique_id}\<close>, for a remote and for a
  dock alike. The firmware update entity does not: for the device client named
  \<open>Remote Two\<close>, model \<open>UCR2\<close>, serial number \<open>SN1\<close>, its unique id is
  \<open>Remote Two_update_status\<close>, which the version-1 migration itself would rename to
  \<open>UCR2_SN1_update_status\<close>.
\<close>

theorem Update_unique_id_evaluated:
  "attr_unique_id (Update_init
      \<lparr>name = ''Remote Two'', model_number = ''UCR2'', serial_number = ''SN1'', docks = [],
       external_entity_configuration_available = False, update_in_progress = False,
       update_percent = 0, sw_version = ''1.0'', latest_sw_version = ''1.0'',
       automatic_updates = False, release_notes = ''''\<rparr>) = ''Remote Two_update_status''
   \<and> unique_id (migrate_entry
      \<lparr>name = ''Remote Two'', model_number = ''UCR2'', serial_number = ''SN1'', docks = [],
       external_entity_configuration_available = False, update_in_progress = False,
       update_percent = 0, sw_version = ''1.0'', latest_sw_version = ''1.0'',
       automatic_updates = False, release_notes = ''''\<rparr>
      \<lparr>entity_id = ''update.firmware'', config_entry_id = ''e1'', domain = UPDATE,
       platform = ''unfoldedcircle'', unique_id = ''Remote Two_update_status''\<rparr>) = ''UCR2_SN1_update_status''
   \<and> map attr_unique_id
        (map (UCRemoteNumber (UnfoldedCircleRemoteCoordinator
          \<lparr>name = ''Remote Two'', model_number = ''UCR2'', serial_number = ''SN1'', docks = [],
           external_entity_configuration_available = False, update_in_progress = False,
           update_percent = 0, sw_version = ''1.0'', latest_sw_version = ''1.0'',
           automatic_updates = False, release_notes = ''''\<rparr>) (map_of []))
          UNFOLDED_CIRCLE_NUMBER)
      = [''UCR2_SN1_display_brightness'', ''UCR2_SN1_button_backlight_brightness'',
         ''UCR2_SN1_sound_effects_volume'', ''UCR2_SN1_display_timeout'',
         ''UCR2_SN1_wakeup_sensitivity'', ''UCR2_SN1_sleep_timeout'']"
  by code_simp


lemma update_async_setup_entry_missing_domain:
  "data hass (DOMAIN K) = None \<Longrightarrow> update_async_setup_entry K hass = Inl (KeyError (DOMAIN K))"
  by (simp add: update_async_setup_entry_def)

lemma async_setup_entry_keeps_data:
  "async_setup_entry K w hass = (Inr ok, hass') \<Longrightarrow> data hass' = data hass"
  by (simp add: async_setup_entry_success)

lemma update_platform_after_setup:
  assumes "async_setup_entry K w hass = (Inr ok, hass')" and "data hass (DOMAIN K) = None"
  shows "update_async_setup_entry K hass' = Inl (KeyError (DOMAIN K))"
    and "\<exists>entities. number_async_setup_entry cd hass' = Inr entities"
proof -
  from assms have "data hass' (DOMAIN K) = None"
    by (simp add: async_setup_entry_keeps_data)
  then show "update_async_setup_entry K hass' = Inl (KeyError (DOMAIN K))"
    by (rule update_async_setup_entry_missing_domain)
  from async_setup_entry_success [OF assms(1)]
  obtain rd where "runtime_data (config_entry hass') = Some rd" by blast
  then show "\<exists>entities. number_async_setup_entry cd hass' = Inr entities"
    by (simp add: number_async_setup_entry_def)
qed

text \<open>
  C10. Setup stores the coordinator in \<open>entry.runtime_data\<close> and never writes
  \<open>hass.data\<close>. On a host whose \<open>hass.data\<close> is empty, after a setup in which every
  call returns, the lookup of the update platform raises \<open>KeyError\<close> for the domain.
\<close>

theorem update_platform_lookup_evaluated:
  "fst (async_setup_entry
      \<lparr>DOMAIN = ''unfoldedcircle'', UNFOLDED_CIRCLE_COORDINATOR = ''unfolded_circle_coordinator'',
       UC_HA_SYSTEM = ''hass'', UC_HA_TOKEN_ID = ''ws-ha-api''\<rparr>
      \<lparr>validate_connection = None, get_remote_information = None,
       api = \<lparr>name = ''Remote Two'', model_number = ''UCR2'', serial_number = ''SN1'',
              docks = [],
              external_entity_configuration_available = False, update_in_progress = False,
              update_percent = 0, sw_version = ''1.0'', latest_sw_version = ''1.0'',
              automatic_updates = False, release_notes = ''''\<rparr>,
       coordinator_init = None, api_init = None,
       dock_coordinator_init = map_of [],
       dock_api_update = map_of [], dock_first_refresh = map_of [],
       first_refresh = None, get_registered_websocket_url = Inr True,
       async_forward_entry_setups = None, zeroconf_instance = None, init_websocket = None,
       close_websocket = None, async_delete_issue = map_of [],
       async_unload_platforms = Inr True, delete_token_for_external_system = Inr ''ok''\<rparr>
      \<lparr>config_entry = \<lparr>entry_id = ''e1'', version = 2, title = ''Remote Two'',
         data_host = Some ''10.0.0.2'', data_pin = Some ''1234'', data_apiKey = Some ''key'',
         data_docks = Some [], runtime_data = None\<rparr>,
       entity_registry = [], device_registry = [],
       issue_registry = map_of [], logger = [], data = map_of []\<rparr>) = Inr True
   \<and> update_async_setup_entry
      \<lparr>DOMAIN = ''unfoldedcircle'', UNFOLDED_CIRCLE_COORDINATOR = ''unfolded_circle_coordinator'',
       UC_HA_SYSTEM = ''hass'', UC_HA_TOKEN_ID = ''ws-ha-api''\<rparr>
      (snd (async_setup_entry
      \<lparr>DOMAIN = ''unfoldedcircle'', UNFOLDED_CIRCLE_COORDINATOR = ''unfolded_circle_coordinator'',
       UC_HA_SYSTEM = ''hass'', UC_HA_TOKEN_ID = ''ws-ha-api''\<rparr>
      \<lparr>validate_connection = None, get_remote_information = None,
       api = \<lparr>name = ''Remote Two'', model_number = ''UCR2'', serial_number = ''SN1'',
              docks = [],
              external_entity_configuration_available = False, update_in_progress = False,
              update_percent = 0, sw_version = ''1.0'', latest_sw_version = ''1.0'',
              automatic_updates = False, release_notes = ''''\<rparr>,
       coordinator_init = None, api_init = None,
       dock_coordinator_init = map_of [],
       dock_api_update = map_of [], dock_first_refresh = map_of [],
       first_refresh = None, get_registered_websocket_url = Inr True,
       async_forward_entry_setups = None, zeroconf_instance = None, init_websocket = None,
       close_websocket = None, async_delete_issue = map_of [],
       async_unload_platforms = Inr True, delete_token_for_external_system = Inr ''ok''\<rparr>
      \<lparr>config_entry = \<lparr>entry_id = ''e1'', version = 2, title = ''Remote Two'',
         data_host = Some ''10.0.0.2'', data_pin = Some ''1234'', data_apiKey = Some ''key'',
         data_docks = Some [], runtime_data = None\<rparr>,
       entity_registry = [], device_registry = [],
       issue_registry = map_of [], logger = [], data = map_of []\<rparr>))
     = Inl (KeyError ''unfoldedcircle'')"
  by code_simp


end
